theory Spec2Isabelle
  imports Complex_Main
begin

section \<open>The trainer of image\_to\_latex: data model\<close>

text \<open>
  This theory embeds \<^verbatim>\<open>src/image_to_latex/trainers/base_trainer.py\<close>: the class
  \<^verbatim>\<open>BaseTrainer\<close> with \<^verbatim>\<open>__init__\<close>, \<^verbatim>\<open>config\<close>, \<^verbatim>\<open>fit\<close>, \<^verbatim>\<open>training_step\<close>,
  \<^verbatim>\<open>validation_step\<close>, \<^verbatim>\<open>_early_stopping\<close>, \<^verbatim>\<open>_save_checkpoint\<close> and
  \<^verbatim>\<open>_find_optimal_lr\<close>. Python's leading underscores are dropped from the names.
\<close>

subsection \<open>Python floats, as far as the trainer looks at them\<close>

text \<open>
  A validation loss is a Python float. The trainer only compares losses with \<^verbatim>\<open><\<close>, adds
  them up and divides the total by a length. A float is a finite number, one of the two
  infinities, or NaN; the comparison is the IEEE one, so it is false whenever NaN takes
  part. Finite floats are a subset of the reals and compare as the reals do.
\<close>

datatype pyfloat = Fin real | PosInf | NegInf | NaN

fun flt :: "pyfloat \<Rightarrow> pyfloat \<Rightarrow> bool" where
  "flt (Fin a) (Fin b) = (a < b)"
| "flt (Fin a) PosInf = True"
| "flt NegInf (Fin b) = True"
| "flt NegInf PosInf = True"
| "flt _ _ = False"

subsection \<open>Module constants\<close>

definition MAX_EPOCHS :: int where "MAX_EPOCHS = 100"
definition PATIENCE :: int where "PATIENCE = 10"
definition LR :: real where "LR = 1 / 10000"
definition MAX_LR :: real where "MAX_LR = 1 / 100"
definition SAVE_BEST_MODEL :: bool where "SAVE_BEST_MODEL = False"
definition USE_SCHEDULER :: bool where "USE_SCHEDULER = False"
definition CHECKPOINT_FILENAME :: string where "CHECKPOINT_FILENAME = ''best.pth''"

subsection \<open>Errors, printed lines, the trainer's state\<close>

text \<open>
  The exceptions of the trainer: the division by \<^verbatim>\<open>len(data_loaders[phase])\<close> when a
  dataloader is empty, the read of the loop variable \<^verbatim>\<open>epoch\<close> after a loop that never
  ran, the \<^verbatim>\<open>ValueError\<close> of the scheduler's constructor, and the read of the attribute
  \<^verbatim>\<open>checkpoint\<close> before it has been assigned.
\<close>

datatype error = ZeroDivisionError | UnboundLocalError | ValueError | AttributeError

text \<open>
  What \<^verbatim>\<open>fit\<close> prints, as the arguments of each \<^verbatim>\<open>print\<close>: the range-test notice, the
  progress line of an epoch (epoch number, average training loss, average validation
  loss; the elapsed wall-clock time and the three-decimal formatting are left out), and
  the early-stopping notice with the patience.
\<close>

datatype event = RangeTest | Progress int pyfloat pyfloat | Terminated int

text \<open>
  The state is the trainer object together with what it has done to the outside.
  \<^item> \<open>torch\<close> holds every object owned by the framework: the model with its parameters
    and mode, \<^verbatim>\<open>self.optimizer\<close> and \<^verbatim>\<open>self.scheduler\<close> (which refer to the model's
    parameters). Its type \<open>'w\<close> is left open.
  \<^item> \<open>wandb_run\<close> is the truth value of \<^verbatim>\<open>self.wandb_run\<close>.
  \<^item> The six hyperparameters have the types of the module defaults.
  \<^item> \<open>checkpoint\<close> is \<open>None\<close> until the attribute is assigned. It holds what
    \<^verbatim>\<open>model.state_dict()\<close> returned: a dictionary of tensors, which lives in the
    framework. The values of these tensors are read through the framework state.
  \<^item> \<open>epoch\<close> is the local variable of \<^verbatim>\<open>fit\<close>, \<open>None\<close> while unbound.
  \<^item> \<open>printed\<close> lists what the trainer has printed, \<open>summary_epoch\<close> is
    \<^verbatim>\<open>wandb.run.summary["epoch"]\<close>, and \<open>written\<close> maps a file name to the content
    the trainer has written to it.
\<close>

record ('w, 'sd) state =
  torch :: 'w
  wandb_run :: bool
  max_epochs :: int
  patience :: int
  lr :: real
  max_lr :: real
  save_best_model :: bool
  use_scheduler :: bool
  start_epoch :: int
  best_val_loss :: pyfloat
  no_improve_count :: int
  checkpoint :: "'sd option"
  epoch :: "int option"
  printed :: "event list"
  summary_epoch :: "int option"
  written :: "string \<rightharpoonup> 'sd"

text \<open>
  The framework and the other modules of the package are outside this file. Their
  operations are parameters: each is a function on the framework state \<open>'w\<close>.
  \<open>'b\<close> is a batch, \<open>'l\<close> a loss tensor, \<open>'sd\<close> what \<^verbatim>\<open>model.state_dict()\<close> returns: a
  reference to tensors of the framework state, not their values.
  \<^item> \<open>adam r\<close>: \<^verbatim>\<open>self.optimizer = optim.Adam(self.model.parameters(), lr=r)\<close>
  \<^item> \<open>lr_finder dl\<close>: the three \<^verbatim>\<open>LRFinder_\<close> calls of \<^verbatim>\<open>_find_optimal_lr\<close>, returning
    the suggested rate
  \<^item> \<open>one_cycle_lr m e n\<close>: \<^verbatim>\<open>self.scheduler = OneCycleLR(self.optimizer, max_lr=m,
    epochs=e, steps_per_epoch=n, pct_start=0.5, div_factor=10, final_div_factor=1e4)\<close>,
    for arguments the constructor accepts
  \<^item> \<open>model_to\<close>, \<open>model_train\<close>, \<open>model_eval\<close>: \<^verbatim>\<open>self.model.to(self.device)\<close>,
    \<^verbatim>\<open>self.model.train()\<close>, \<^verbatim>\<open>self.model.eval()\<close>
  \<^item> \<open>move_to_device\<close>: \<^verbatim>\<open>self._move_to_device(batch)\<close>
  \<^item> \<open>model_loss g\<close>: \<^verbatim>\<open>self.criterion(self.model(imgs, targets), targets)\<close>, with
    gradients recorded iff \<open>g\<close>
  \<^item> \<open>backward\<close>, \<open>optimizer_step\<close>, \<open>scheduler_step\<close>, \<open>item\<close>: the methods of these
    names
  \<^item> \<open>state_dict\<close>: \<^verbatim>\<open>self.model.state_dict()\<close>, the dictionary of the model's tensors
  \<^item> \<open>load_state_dict d\<close>: \<^verbatim>\<open>self.model.load_state_dict(d)\<close>, which copies into the
    model the values that the tensors of \<open>d\<close> hold in the framework state at that moment
  \<^item> \<open>round_float\<close>: the rounding of an exact real result to a float, used by float
    addition and division.
\<close>

record ('w, 'b, 'l, 'sd) env =
  adam :: "real \<Rightarrow> 'w \<Rightarrow> 'w"
  lr_finder :: "'b list \<Rightarrow> 'w \<Rightarrow> real \<times> 'w"
  one_cycle_lr :: "real \<Rightarrow> int \<Rightarrow> nat \<Rightarrow> 'w \<Rightarrow> 'w"
  model_to :: "'w \<Rightarrow> 'w"
  model_train :: "'w \<Rightarrow> 'w"
  model_eval :: "'w \<Rightarrow> 'w"
  move_to_device :: "'b \<Rightarrow> 'b"
  model_loss :: "bool \<Rightarrow> 'b \<Rightarrow> 'w \<Rightarrow> 'l \<times> 'w"
  backward :: "'l \<Rightarrow> 'w \<Rightarrow> 'w"
  optimizer_step :: "'w \<Rightarrow> 'w"
  scheduler_step :: "'w \<Rightarrow> 'w"
  item :: "'l \<Rightarrow> pyfloat"
  state_dict :: "'w \<Rightarrow> 'sd"
  load_state_dict :: "'sd \<Rightarrow> 'w \<Rightarrow> 'w"
  round_float :: "real \<Rightarrow> pyfloat"

section \<open>Early stopping and the checkpoint\<close>

text \<open>
  \<^verbatim>\<open>_save_checkpoint\<close>: return at once unless \<^verbatim>\<open>save_best_model\<close>; otherwise bind
  \<^verbatim>\<open>self.checkpoint\<close> to \<^verbatim>\<open>self.model.state_dict()\<close>. Nothing else is touched, and
  nothing is copied: the attribute refers to the dictionary that the framework returned.
\<close>

definition save_checkpoint ::
  "('w, 'b, 'l, 'sd) env \<Rightarrow> ('w, 'sd) state \<Rightarrow> ('w, 'sd) state" where
  "save_checkpoint E self =
     (if \<not> save_best_model self then self
      else self\<lparr>checkpoint := Some (state_dict E (torch self))\<rparr>)"

text \<open>
  \<^verbatim>\<open>_early_stopping\<close>: the returned pair is the boolean result and the trainer after
  the call.
\<close>

definition early_stopping ::
  "('w, 'b, 'l, 'sd) env \<Rightarrow> pyfloat \<Rightarrow> ('w, 'sd) state \<Rightarrow> bool \<times> ('w, 'sd) state" where
  "early_stopping E current_val_loss self =
     (if flt current_val_loss (best_val_loss self) then
        (False, save_checkpoint E
                  (self\<lparr>best_val_loss := current_val_loss, no_improve_count := 0\<rparr>))
      else
        (let self = self\<lparr>no_improve_count := no_improve_count self + 1\<rparr>
         in if no_improve_count self = patience self then (True, self)
            else (False, self)))"

text \<open>
  The first statement of \<^verbatim>\<open>test\<close>, where the checkpoint is read:
  \<^verbatim>\<open>if self.save_best_model: self.model.load_state_dict(self.checkpoint)\<close>. The
  evaluation that follows it in \<^verbatim>\<open>test\<close> (predictions and the two scores) is not
  modelled.
\<close>

definition test_load_checkpoint ::
  "('w, 'b, 'l, 'sd) env \<Rightarrow> ('w, 'sd) state \<Rightarrow> error + ('w, 'sd) state" where
  "test_load_checkpoint E self =
     (if save_best_model self then
        (case checkpoint self of
           None \<Rightarrow> Inl AttributeError
         | Some d \<Rightarrow> Inr (self\<lparr>torch := load_state_dict E d (torch self)\<rparr>))
      else Inr self)"

section \<open>Construction and configuration\<close>

text \<open>
  The configuration dictionary, read with \<^verbatim>\<open>config.get(key, DEFAULT)\<close>: each of the six
  keys is present with a value or absent. The record is extensible: its \<open>more\<close> part
  stands for any other keys of the dictionary, which \<^verbatim>\<open>__init__\<close> never reads.
  The fields \<open>cfg_max_epochs\<close>, \<open>cfg_patience\<close>, \<open>cfg_lr\<close>, \<open>cfg_max_lr\<close>,
  \<open>cfg_use_scheduler\<close>, \<open>cfg_save_best_model\<close> are the keys \<^verbatim>\<open>"max-epochs"\<close>,
  \<^verbatim>\<open>"patience"\<close>, \<^verbatim>\<open>"lr"\<close>, \<^verbatim>\<open>"max-lr"\<close>, \<^verbatim>\<open>"use-scheduler"\<close>, \<^verbatim>\<open>"save-best-model"\<close>.
\<close>

record config_dict =
  cfg_max_epochs :: "int option"
  cfg_patience :: "int option"
  cfg_lr :: "real option"
  cfg_max_lr :: "real option"
  cfg_use_scheduler :: "bool option"
  cfg_save_best_model :: "bool option"

definition dict_get :: "'a option \<Rightarrow> 'a \<Rightarrow> 'a" where
  "dict_get entry fallback = (case entry of None \<Rightarrow> fallback | Some v \<Rightarrow> v)"

text \<open>
  \<^verbatim>\<open>__init__(model, config, wandb_run)\<close>. The tokenizer and the device are not
  modelled: nothing below depends on them. A new trainer has printed and written nothing.
\<close>

definition init :: "'w \<Rightarrow> 'z config_dict_scheme \<Rightarrow> bool \<Rightarrow> ('w, 'sd) state" where
  "init model config wandb =
     \<lparr>torch = model,
      wandb_run = wandb,
      max_epochs = dict_get (cfg_max_epochs config) MAX_EPOCHS,
      patience = dict_get (cfg_patience config) PATIENCE,
      lr = dict_get (cfg_lr config) LR,
      max_lr = dict_get (cfg_max_lr config) MAX_LR,
      save_best_model = dict_get (cfg_save_best_model config) SAVE_BEST_MODEL,
      use_scheduler = dict_get (cfg_use_scheduler config) USE_SCHEDULER,
      start_epoch = 1,
      best_val_loss = PosInf,
      no_improve_count = 0,
      checkpoint = None,
      epoch = None,
      printed = [],
      summary_epoch = None,
      written = Map.empty\<rparr>"

text \<open>\<^verbatim>\<open>config()\<close> returns a dictionary with exactly the six keys.\<close>

definition config :: "('w, 'sd) state \<Rightarrow> config_dict" where
  "config self =
     \<lparr>cfg_max_epochs = Some (max_epochs self),
      cfg_patience = Some (patience self),
      cfg_lr = Some (lr self),
      cfg_max_lr = Some (max_lr self),
      cfg_use_scheduler = Some (use_scheduler self),
      cfg_save_best_model = Some (save_best_model self)\<rparr>"

section \<open>Training\<close>

subsection \<open>Float addition and division by a length\<close>

text \<open>
  \<^verbatim>\<open>total_loss += loss.item()\<close> and \<^verbatim>\<open>total_loss / len(...)\<close> are IEEE operations: the
  exact result of two finite operands is rounded, infinities and NaN propagate. The
  divisor of \<open>fdiv\<close> is a positive length; the caller raises on zero before.
\<close>

fun fadd :: "('w, 'b, 'l, 'sd) env \<Rightarrow> pyfloat \<Rightarrow> pyfloat \<Rightarrow> pyfloat" where
  "fadd E (Fin a) (Fin b) = round_float E (a + b)"
| "fadd E NaN _ = NaN"
| "fadd E _ NaN = NaN"
| "fadd E PosInf NegInf = NaN"
| "fadd E NegInf PosInf = NaN"
| "fadd E PosInf _ = PosInf"
| "fadd E _ PosInf = PosInf"
| "fadd E NegInf _ = NegInf"
| "fadd E _ NegInf = NegInf"

fun fdiv :: "('w, 'b, 'l, 'sd) env \<Rightarrow> pyfloat \<Rightarrow> nat \<Rightarrow> pyfloat" where
  "fdiv E (Fin a) n = round_float E (a / real n)"
| "fdiv E x n = x"

subsection \<open>The steps\<close>

definition training_step ::
  "('w, 'b, 'l, 'sd) env \<Rightarrow> 'b \<Rightarrow> ('w, 'sd) state \<Rightarrow> 'l \<times> ('w, 'sd) state" where
  "training_step E batch self =
     (let (loss, w) = model_loss E True batch (torch self) in (loss, self\<lparr>torch := w\<rparr>))"

definition validation_step ::
  "('w, 'b, 'l, 'sd) env \<Rightarrow> 'b \<Rightarrow> ('w, 'sd) state \<Rightarrow> 'l \<times> ('w, 'sd) state" where
  "validation_step E batch self =
     (let (loss, w) = model_loss E False batch (torch self) in (loss, self\<lparr>torch := w\<rparr>))"

definition find_optimal_lr ::
  "('w, 'b, 'l, 'sd) env \<Rightarrow> 'b list \<Rightarrow> ('w, 'sd) state \<Rightarrow> real \<times> ('w, 'sd) state" where
  "find_optimal_lr E dataloader self =
     (let (max_lr, w) = lr_finder E dataloader (torch self) in (max_lr, self\<lparr>torch := w\<rparr>))"

subsection \<open>The loops of fit\<close>

text \<open>
  A dataloader is the finite list of its batches; \<^verbatim>\<open>len(dataloader)\<close> is its length.
\<close>

datatype phase = Train | Val

text \<open>
  The body of \<^verbatim>\<open>for batch in pbar\<close> for one batch: the loss tensor and the trainer after
  it.
\<close>

definition batch_step ::
  "('w, 'b, 'l, 'sd) env \<Rightarrow> phase \<Rightarrow> 'b \<Rightarrow> ('w, 'sd) state \<Rightarrow> 'l \<times> ('w, 'sd) state" where
  "batch_step E phase batch self =
     (let batch = move_to_device E batch in
      if phase = Train then
        (let (loss, self) = training_step E batch self;
             self = self\<lparr>torch := backward E loss (torch self)\<rparr>;
             self = self\<lparr>torch := optimizer_step E (torch self)\<rparr>;
             self = (if use_scheduler self
                     then self\<lparr>torch := scheduler_step E (torch self)\<rparr> else self)
         in (loss, self))
      else validation_step E batch self)"

text \<open>The loop \<^verbatim>\<open>for batch in pbar\<close>, threading \<^verbatim>\<open>total_loss\<close> and the trainer.\<close>

fun batches ::
  "('w, 'b, 'l, 'sd) env \<Rightarrow> phase \<Rightarrow> 'b list \<Rightarrow> pyfloat \<Rightarrow> ('w, 'sd) state
     \<Rightarrow> pyfloat \<times> ('w, 'sd) state" where
  "batches E phase [] total_loss self = (total_loss, self)"
| "batches E phase (batch # rest) total_loss self =
     (let (loss, self) = batch_step E phase batch self;
          total_loss = fadd E total_loss (item E loss)
      in batches E phase rest total_loss self)"

text \<open>
  One pass of \<^verbatim>\<open>for phase in ["train", "val"]\<close>: the value stored in
  \<^verbatim>\<open>avg_loss[phase]\<close>, or the \<^verbatim>\<open>ZeroDivisionError\<close> of an empty dataloader.
\<close>

definition run_phase ::
  "('w, 'b, 'l, 'sd) env \<Rightarrow> phase \<Rightarrow> 'b list \<Rightarrow> ('w, 'sd) state
     \<Rightarrow> (error + pyfloat) \<times> ('w, 'sd) state" where
  "run_phase E phase dataloader self =
     (let total_loss = Fin 0;
          self = (if phase = Train then self\<lparr>torch := model_train E (torch self)\<rparr>
                  else self\<lparr>torch := model_eval E (torch self)\<rparr>);
          (total_loss, self) = batches E phase dataloader total_loss self
      in if length dataloader = 0 then (Inl ZeroDivisionError, self)
         else (Inr (fdiv E total_loss (length dataloader)), self))"

text \<open>Both phases of one epoch: the pair \<^verbatim>\<open>(avg_loss["train"], avg_loss["val"])\<close>.\<close>

definition run_phases ::
  "('w, 'b, 'l, 'sd) env \<Rightarrow> 'b list \<Rightarrow> 'b list \<Rightarrow> ('w, 'sd) state
     \<Rightarrow> (error + pyfloat \<times> pyfloat) \<times> ('w, 'sd) state" where
  "run_phases E train_dataloader val_dataloader self =
     (case run_phase E Train train_dataloader self of
        (Inl e, self) \<Rightarrow> (Inl e, self)
      | (Inr avg_train, self) \<Rightarrow>
          (case run_phase E Val val_dataloader self of
             (Inl e, self) \<Rightarrow> (Inl e, self)
           | (Inr avg_val, self) \<Rightarrow> (Inr (avg_train, avg_val), self)))"

text \<open>
  How the epoch loop ends: the range is exhausted, the early-stopping \<^verbatim>\<open>break\<close> is
  taken, or an exception leaves it.
\<close>

datatype exit = Exhausted | Break | Raised error

text \<open>
  \<^verbatim>\<open>for epoch in range(self.start_epoch, self.max_epochs + 1)\<close>, over the list of the
  epochs still to run. Python evaluates the range once, before the first iteration.
\<close>

fun epoch_loop ::
  "('w, 'b, 'l, 'sd) env \<Rightarrow> 'b list \<Rightarrow> 'b list \<Rightarrow> int list \<Rightarrow> ('w, 'sd) state
     \<Rightarrow> exit \<times> ('w, 'sd) state" where
  "epoch_loop E train_dataloader val_dataloader [] self = (Exhausted, self)"
| "epoch_loop E train_dataloader val_dataloader (e # es) self =
     (let self = self\<lparr>epoch := Some e\<rparr> in
      case run_phases E train_dataloader val_dataloader self of
        (Inl err, self) \<Rightarrow> (Raised err, self)
      | (Inr (avg_train, avg_val), self) \<Rightarrow>
          (let self = self\<lparr>printed := printed self @ [Progress e avg_train avg_val]\<rparr>;
               (stop, self) = early_stopping E avg_val self
           in if stop
              then (Break, self\<lparr>printed := printed self @ [Terminated (patience self)]\<rparr>)
              else epoch_loop E train_dataloader val_dataloader es self))"

text \<open>
  The constructor of the scheduler as \<^verbatim>\<open>fit\<close> calls it. The framework's \<^verbatim>\<open>OneCycleLR\<close>
  raises \<^verbatim>\<open>ValueError\<close> unless \<^verbatim>\<open>epochs\<close> and \<^verbatim>\<open>steps_per_epoch\<close> are positive integers;
  \<^verbatim>\<open>self.scheduler\<close> is then left unassigned.
\<close>

definition OneCycleLR ::
  "('w, 'b, 'l, 'sd) env \<Rightarrow> real \<Rightarrow> int \<Rightarrow> nat \<Rightarrow> 'w \<Rightarrow> error + 'w" where
  "OneCycleLR E peak_lr epochs steps_per_epoch w =
     (if epochs \<le> 0 \<or> steps_per_epoch = 0 then Inl ValueError
      else Inr (one_cycle_lr E peak_lr epochs steps_per_epoch w))"

text \<open>
  \<^verbatim>\<open>fit(train_dataloader, val_dataloader)\<close>. The local \<^verbatim>\<open>epoch\<close> is unbound on entry.
  The result says how the call ended and gives the trainer after it. An exception of
  the scheduler's constructor leaves \<^verbatim>\<open>fit\<close> before the epoch loop. The display width,
  the progress bar and the clock change nothing of the state and are left out.
\<close>

definition fit ::
  "('w, 'b, 'l, 'sd) env \<Rightarrow> 'b list \<Rightarrow> 'b list \<Rightarrow> ('w, 'sd) state
     \<Rightarrow> exit \<times> ('w, 'sd) state" where
  "fit E train_dataloader val_dataloader self =
     (let self = self\<lparr>epoch := None\<rparr>;
          self = self\<lparr>torch := adam E (1 / 1000000) (torch self)\<rparr>;
          (raised, self) =
            (if use_scheduler self then
               (let self =
                      (if max_lr self < 0 then
                         (let self = self\<lparr>printed := printed self @ [RangeTest]\<rparr>;
                              (found, self) = find_optimal_lr E train_dataloader self
                          in self\<lparr>max_lr := found\<rparr>)
                       else self)
                in case OneCycleLR E (max_lr self) (max_epochs self)
                          (length train_dataloader) (torch self) of
                     Inl err \<Rightarrow> (Some err, self)
                   | Inr w \<Rightarrow> (None, self\<lparr>torch := w\<rparr>))
             else (None, self))
      in case raised of
           Some err \<Rightarrow> (Raised err, self)
         | None \<Rightarrow>
           (let self = self\<lparr>torch := model_to E (torch self)\<rparr>;
                (ex, self) = epoch_loop E train_dataloader val_dataloader
                               [start_epoch self .. max_epochs self] self
            in case ex of
                 Raised err \<Rightarrow> (Raised err, self)
               | _ \<Rightarrow>
                 (if wandb_run self then
                    (case epoch self of
                       None \<Rightarrow> (Raised UnboundLocalError, self)
                     | Some e \<Rightarrow>
                         (ex, self\<lparr>summary_epoch := Some (min e (max_epochs self))\<rparr>))
                  else (ex, self))))"

section \<open>Notions of the specification\<close>

text \<open>
  A sequence of calls to \<^verbatim>\<open>_early_stopping\<close>, one per validation loss, with the list of
  the returned booleans. Unlike \<^verbatim>\<open>fit\<close> it goes on after a call has returned \<open>True\<close>.
\<close>

fun early_stopping_calls ::
  "('w, 'b, 'l, 'sd) env \<Rightarrow> pyfloat list \<Rightarrow> ('w, 'sd) state
     \<Rightarrow> bool list \<times> ('w, 'sd) state" where
  "early_stopping_calls E [] self = ([], self)"
| "early_stopping_calls E (v # vs) self =
     (let (r, self) = early_stopping E v self;
          (rs, self) = early_stopping_calls E vs self
      in (r # rs, self))"

text \<open>
  The minimum validation loss seen so far, starting from positive infinity: a loss
  replaces the minimum when it is strictly less.
\<close>

definition min_seen :: "pyfloat list \<Rightarrow> pyfloat" where
  "min_seen vs = foldl (\<lambda>best v. if flt v best then v else best) PosInf vs"

text \<open>Epoch \<open>k\<close> (counted from 0) strictly improves on the minimum of the epochs before it.\<close>

definition improves :: "pyfloat list \<Rightarrow> nat \<Rightarrow> bool" where
  "improves vs k = flt (vs ! k) (min_seen (take k vs))"

text \<open>
  The number of consecutive non-improving epochs at the end of \<open>vs\<close>: since the last
  strict improvement, or since the start when there was none.
\<close>

definition streak :: "pyfloat list \<Rightarrow> nat" where
  "streak vs = length (takeWhile (\<lambda>k. \<not> improves vs k) (rev [0..<length vs]))"

text \<open>
  \<open>b\<close> is the minimum of the set \<open>S\<close> of floats: it belongs to \<open>S\<close>, it is a number, and
  nothing in \<open>S\<close> is strictly less. NaN compares with nothing and is never a minimum.
\<close>

definition is_minimum :: "pyfloat \<Rightarrow> pyfloat set \<Rightarrow> bool" where
  "is_minimum b S = (b \<in> S \<and> b \<noteq> NaN \<and> (\<forall>v\<in>S. \<not> flt v b))"

text \<open>The validation losses and the epoch numbers of the printed progress lines.\<close>

fun val_losses :: "event list \<Rightarrow> pyfloat list" where
  "val_losses [] = []"
| "val_losses (Progress e t v # evs) = v # val_losses evs"
| "val_losses (_ # evs) = val_losses evs"

fun epochs_of :: "event list \<Rightarrow> int list" where
  "epochs_of [] = []"
| "epochs_of (Progress e t v # evs) = e # epochs_of evs"
| "epochs_of (_ # evs) = epochs_of evs"

text \<open>Two trainers differ at most in the framework state.\<close>

definition torch_only :: "('w, 'sd) state \<Rightarrow> ('w, 'sd) state \<Rightarrow> bool" where
  "torch_only s s' = (s'\<lparr>torch := torch s\<rparr> = s)"

text \<open>
  The per-batch loss values of a phase: the value of \<^verbatim>\<open>loss.item()\<close> for each batch, in
  the order of the dataloader, the model changing from batch to batch as the steps run.
\<close>

fun batch_losses ::
  "('w, 'b, 'l, 'sd) env \<Rightarrow> phase \<Rightarrow> 'b list \<Rightarrow> ('w, 'sd) state \<Rightarrow> pyfloat list" where
  "batch_losses E phase [] self = []"
| "batch_losses E phase (batch # rest) self =
     (let (loss, self) = batch_step E phase batch self
      in item E loss # batch_losses E phase rest self)"

text \<open>The same, from the trainer at the start of the phase (before the mode switch).\<close>

definition phase_losses ::
  "('w, 'b, 'l, 'sd) env \<Rightarrow> phase \<Rightarrow> 'b list \<Rightarrow> ('w, 'sd) state \<Rightarrow> pyfloat list" where
  "phase_losses E phase dataloader self =
     batch_losses E phase dataloader
       (if phase = Train then self\<lparr>torch := model_train E (torch self)\<rparr>
        else self\<lparr>torch := model_eval E (torch self)\<rparr>)"

text \<open>
  The float sum of a list of losses from left to right, starting at 0.0, and their
  arithmetic mean: the sum divided by their number.
\<close>

definition fsum :: "('w, 'b, 'l, 'sd) env \<Rightarrow> pyfloat list \<Rightarrow> pyfloat" where
  "fsum E xs = foldl (fadd E) (Fin 0) xs"

definition mean_loss :: "('w, 'b, 'l, 'sd) env \<Rightarrow> pyfloat list \<Rightarrow> pyfloat" where
  "mean_loss E xs = fdiv E (fsum E xs) (length xs)"

text \<open>The trainer with another value of the attribute \<^verbatim>\<open>lr\<close>.\<close>

abbreviation (input) set_lr :: "real \<Rightarrow> ('w, 'sd) state \<Rightarrow> ('w, 'sd) state" where
  "set_lr x s \<equiv> s\<lparr>lr := x\<rparr>"

section \<open>The parts of fit\<close>

text \<open>
  For the proofs, \<^verbatim>\<open>fit\<close> is cut in three: the statements before the epoch loop
  (optimizer, scheduler, moving the model), with the exception they may raise; the
  loop; and the statement after it (the summary for the experiment tracker). Lemma
  \<open>fit_decomp\<close> below shows that \<open>fit\<close> is their composition.
\<close>

definition fit_setup ::
  "('w, 'b, 'l, 'sd) env \<Rightarrow> 'b list \<Rightarrow> ('w, 'sd) state
     \<Rightarrow> error option \<times> ('w, 'sd) state" where
  "fit_setup E train_dataloader self =
     (let self = self\<lparr>epoch := None\<rparr>;
          self = self\<lparr>torch := adam E (1 / 1000000) (torch self)\<rparr>;
          (raised, self) =
            (if use_scheduler self then
               (let self =
                      (if max_lr self < 0 then
                         (let self = self\<lparr>printed := printed self @ [RangeTest]\<rparr>;
                              (found, self) = find_optimal_lr E train_dataloader self
                          in self\<lparr>max_lr := found\<rparr>)
                       else self)
                in case OneCycleLR E (max_lr self) (max_epochs self)
                          (length train_dataloader) (torch self) of
                     Inl err \<Rightarrow> (Some err, self)
                   | Inr w \<Rightarrow> (None, self\<lparr>torch := w\<rparr>))
             else (None, self))
      in case raised of
           Some err \<Rightarrow> (Some err, self)
         | None \<Rightarrow> (None, self\<lparr>torch := model_to E (torch self)\<rparr>))"

definition fit_finish :: "exit \<times> ('w, 'sd) state \<Rightarrow> exit \<times> ('w, 'sd) state" where
  "fit_finish r =
     (case r of (ex, self) \<Rightarrow>
        (case ex of
           Raised err \<Rightarrow> (Raised err, self)
         | _ \<Rightarrow>
           (if wandb_run self then
              (case epoch self of
                 None \<Rightarrow> (Raised UnboundLocalError, self)
               | Some e \<Rightarrow> (ex, self\<lparr>summary_epoch := Some (min e (max_epochs self))\<rparr>))
            else (ex, self))))"

text \<open>
  The trainer agrees with its own progress lines: \<^verbatim>\<open>best_val_loss\<close> is the minimum of
  the validation losses it has printed and \<^verbatim>\<open>no_improve_count\<close> is their streak.
\<close>

definition sync :: "('w, 'sd) state \<Rightarrow> bool" where
  "sync s = (best_val_loss s = min_seen (val_losses (printed s)) \<and>
     no_improve_count s = int (streak (val_losses (printed s))))"

section \<open>A concrete instance\<close>

text \<open>
  A small framework to run the definitions on. The model has one parameter tensor, at
  address 0, and the framework state is the value it holds: the number of optimizer
  steps taken. A batch is the loss the model returns on it, and arithmetic is exact.
  As in the framework, the state dict refers to the model's own tensor (it is its
  address), the optimizer step writes the tensor in place, and loading a state dict
  copies the present values of its tensors into the model: for the model's own tensor
  that changes nothing.
\<close>

definition example_env :: "(nat, pyfloat, pyfloat, nat) env" where
  "example_env =
     \<lparr>adam = (\<lambda>r w. w),
      lr_finder = (\<lambda>dl w. (1 / 100, w)),
      one_cycle_lr = (\<lambda>m e n w. w),
      model_to = (\<lambda>w. w),
      model_train = (\<lambda>w. w),
      model_eval = (\<lambda>w. w),
      move_to_device = (\<lambda>b. b),
      model_loss = (\<lambda>g b w. (b, w)),
      backward = (\<lambda>l w. w),
      optimizer_step = Suc,
      scheduler_step = (\<lambda>w. w),
      item = (\<lambda>l. l),
      state_dict = (\<lambda>w. 0),
      load_state_dict = (\<lambda>d w. w),
      round_float = Fin\<rparr>"

text \<open>A configuration with all six keys, and the trainer built from it.\<close>

definition example_config :: config_dict where
  "example_config =
     \<lparr>cfg_max_epochs = Some 3, cfg_patience = Some 2, cfg_lr = Some (1 / 1000),
      cfg_max_lr = Some (1 / 10), cfg_use_scheduler = Some False,
      cfg_save_best_model = Some True\<rparr>"

definition example_trainer :: "(nat, nat) state" where
  "example_trainer = init 0 example_config False"

section \<open>Early stopping: one call\<close>

lemma early_stopping_fields:
  "patience (snd (early_stopping E v s)) = patience s"
  "max_epochs (snd (early_stopping E v s)) = max_epochs s"
  "torch (snd (early_stopping E v s)) = torch s"
  "printed (snd (early_stopping E v s)) = printed s"
  "epoch (snd (early_stopping E v s)) = epoch s"
  "written (snd (early_stopping E v s)) = written s"
  "save_best_model (snd (early_stopping E v s)) = save_best_model s"
  "wandb_run (snd (early_stopping E v s)) = wandb_run s"
  "start_epoch (snd (early_stopping E v s)) = start_epoch s"
  by (simp_all add: early_stopping_def save_checkpoint_def Let_def)

lemma early_stopping_best:
  "best_val_loss (snd (early_stopping E v s)) =
     (if flt v (best_val_loss s) then v else best_val_loss s)"
  by (simp add: early_stopping_def save_checkpoint_def Let_def)

lemma early_stopping_count:
  "no_improve_count (snd (early_stopping E v s)) =
     (if flt v (best_val_loss s) then 0 else no_improve_count s + 1)"
  by (simp add: early_stopping_def save_checkpoint_def Let_def)

lemma early_stopping_result:
  "fst (early_stopping E v s) =
     (\<not> flt v (best_val_loss s) \<and> no_improve_count s + 1 = patience s)"
  by (simp add: early_stopping_def save_checkpoint_def Let_def)

section \<open>Early stopping: sequences of calls\<close>

lemma calls_snoc:
  "early_stopping_calls E (vs @ [v]) s =
     (let (rs, s1) = early_stopping_calls E vs s; (r, s2) = early_stopping E v s1 in (rs @ [r], s2))"
  by (induction vs arbitrary: s) (simp_all add: Let_def split: prod.splits)

lemma calls_length: "length (fst (early_stopping_calls E vs s)) = length vs"
  by (induction vs arbitrary: s) (simp_all add: Let_def split_def)

lemma flt_NaN: "\<not> flt NaN b" "\<not> flt a NaN"
  by (cases b; simp) (cases a; simp)

lemma flt_chain: "\<not> flt v b \<Longrightarrow> flt x b \<Longrightarrow> \<not> flt v x"
  by (cases v; cases b; cases x; simp)

lemma flt_irrefl: "\<not> flt a a"
  by (cases a; simp)

lemma min_seen_snoc: "min_seen (vs @ [v]) = (if flt v (min_seen vs) then v else min_seen vs)"
  by (simp add: min_seen_def)

lemma improves_append: "k < length vs \<Longrightarrow> improves (vs @ ws) k = improves vs k"
  by (simp add: improves_def nth_append)

lemma streak_snoc: "streak (vs @ [v]) = (if flt v (min_seen vs) then 0 else streak vs + 1)"
proof -
  have "takeWhile (\<lambda>k. \<not> improves (vs @ [v]) k) (rev [0..<length vs])
        = takeWhile (\<lambda>k. \<not> improves vs k) (rev [0..<length vs])"
    by (rule takeWhile_cong) (simp_all add: improves_append)
  moreover have "improves (vs @ [v]) (length vs) = flt v (min_seen vs)"
    by (simp add: improves_def)
  ultimately show ?thesis by (simp add: streak_def)
qed

lemma calls_state:
  "best_val_loss (snd (early_stopping_calls E vs (init m c w))) = min_seen vs \<and>
   no_improve_count (snd (early_stopping_calls E vs (init m c w))) = int (streak vs) \<and>
   patience (snd (early_stopping_calls E vs (init m c w))) = dict_get (cfg_patience c) PATIENCE"
proof (induction vs rule: rev_induct)
  case Nil
  show ?case by (simp add: init_def min_seen_def streak_def)
next
  case (snoc v vs)
  then show ?case
    by (simp add: calls_snoc split_def Let_def early_stopping_best early_stopping_count
        early_stopping_fields min_seen_snoc streak_snoc)
qed

lemma calls_nth:
  assumes "k < length vs"
  shows "fst (early_stopping_calls E vs s) ! k =
         fst (early_stopping E (vs ! k) (snd (early_stopping_calls E (take k vs) s)))"
  using assms
proof (induction vs arbitrary: k rule: rev_induct)
  case Nil then show ?case by simp
next
  case (snoc v vs)
  show ?case
  proof (cases "k < length vs")
    case True
    with snoc.IH[of k] show ?thesis
      by (simp add: calls_snoc split_def Let_def nth_append calls_length)
  next
    case False
    with snoc.prems have "k = length vs" by simp
    then show ?thesis
      by (simp add: calls_snoc split_def Let_def nth_append calls_length)
  qed
qed

lemma calls_result_streak:
  assumes "1 \<le> p" "cfg_patience c = Some p" "k < length vs"
  shows "fst (early_stopping_calls E vs (init m c w)) ! k \<longleftrightarrow> int (streak (take (Suc k) vs)) = p"
proof -
  have t: "take (Suc k) vs = take k vs @ [vs ! k]"
    using assms(3) by (simp add: take_Suc_conv_app_nth)
  show ?thesis
    using assms calls_state[of E "take k vs" m c w]
    by (auto simp add: calls_nth early_stopping_result t streak_snoc dict_get_def)
qed

lemma min_seen_is_minimum: "is_minimum (min_seen vs) (insert PosInf (set vs))"
proof (induction vs rule: rev_induct)
  case Nil
  show ?case by (simp add: is_minimum_def min_seen_def)
next
  case (snoc v vs)
  show ?case
  proof (cases "flt v (min_seen vs)")
    case True
    then have "v \<noteq> NaN" using flt_NaN by auto
    moreover have "\<not> flt x v" if "x \<in> insert PosInf (set vs)" for x
      using snoc True that flt_chain[of x "min_seen vs" v] by (auto simp: is_minimum_def)
    ultimately show ?thesis
      using True by (auto simp: is_minimum_def min_seen_snoc flt_irrefl)
  next
    case False
    with snoc show ?thesis
      by (auto simp: is_minimum_def min_seen_snoc)
  qed
qed

lemma is_minimum_unique:
  assumes "is_minimum a S" and "is_minimum b S"
  shows "a = b"
proof -
  have "\<not> flt a b" "\<not> flt b a" "a \<noteq> NaN" "b \<noteq> NaN"
    using assms by (auto simp add: is_minimum_def)
  then show ?thesis
    by (cases a; cases b; simp)
qed

lemma val_losses_append: "val_losses (xs @ ys) = val_losses xs @ val_losses ys"
  by (induction xs rule: val_losses.induct) simp_all

lemma epochs_of_append: "epochs_of (xs @ ys) = epochs_of xs @ epochs_of ys"
  by (induction xs rule: epochs_of.induct) simp_all

lemma torch_only_refl: "torch_only s s"
  by (simp add: torch_only_def)

lemma torch_only_upd: "torch_only s s' \<Longrightarrow> torch_only s (s'\<lparr>torch := w\<rparr>)"
  by (simp add: torch_only_def)

lemma torch_only_trans:
  assumes "torch_only s s'" and "torch_only s' s''"
  shows "torch_only s s''"
proof -
  have a: "s'\<lparr>torch := torch s\<rparr> = s" and b: "s''\<lparr>torch := torch s'\<rparr> = s'"
    using assms by (simp_all add: torch_only_def)
  have "s''\<lparr>torch := torch s\<rparr> = (s''\<lparr>torch := torch s'\<rparr>)\<lparr>torch := torch s\<rparr>"
    by simp
  also have "\<dots> = s'\<lparr>torch := torch s\<rparr>"
    by (simp only: b)
  finally show ?thesis
    by (simp only: a torch_only_def)
qed

lemma torch_only_fields:
  assumes "torch_only s s'"
  shows "patience s' = patience s" "max_epochs s' = max_epochs s" "lr s' = lr s"
    "max_lr s' = max_lr s" "save_best_model s' = save_best_model s"
    "use_scheduler s' = use_scheduler s" "start_epoch s' = start_epoch s"
    "best_val_loss s' = best_val_loss s" "no_improve_count s' = no_improve_count s"
    "checkpoint s' = checkpoint s" "epoch s' = epoch s" "printed s' = printed s"
    "summary_epoch s' = summary_epoch s" "written s' = written s" "wandb_run s' = wandb_run s"
proof -
  have e: "s = s'\<lparr>torch := torch s\<rparr>" using assms by (simp add: torch_only_def)
  show "patience s' = patience s" by (subst e) simp
  show "max_epochs s' = max_epochs s" by (subst e) simp
  show "lr s' = lr s" by (subst e) simp
  show "max_lr s' = max_lr s" by (subst e) simp
  show "save_best_model s' = save_best_model s" by (subst e) simp
  show "use_scheduler s' = use_scheduler s" by (subst e) simp
  show "start_epoch s' = start_epoch s" by (subst e) simp
  show "best_val_loss s' = best_val_loss s" by (subst e) simp
  show "no_improve_count s' = no_improve_count s" by (subst e) simp
  show "checkpoint s' = checkpoint s" by (subst e) simp
  show "epoch s' = epoch s" by (subst e) simp
  show "printed s' = printed s" by (subst e) simp
  show "summary_epoch s' = summary_epoch s" by (subst e) simp
  show "written s' = written s" by (subst e) simp
  show "wandb_run s' = wandb_run s" by (subst e) simp
qed

lemma batch_step_frame: "torch_only s (snd (batch_step E ph b s))"
  by (simp add: torch_only_def batch_step_def training_step_def validation_step_def Let_def split_def)

lemma batches_frame: "torch_only s (snd (batches E ph bs t s))"
proof (induction bs arbitrary: t s)
  case Nil
  show ?case by (simp add: torch_only_refl)
next
  case (Cons b bs)
  show ?case
    using torch_only_trans[OF batch_step_frame Cons.IH]
    by (simp add: split_def Let_def)
qed

lemma run_phase_frame: "torch_only s (snd (run_phase E ph dl s))"
proof -
  have a: "torch_only s (s\<lparr>torch := w\<rparr>)" for w
    by (simp add: torch_only_def)
  have b: "torch_only s (snd (batches E p dl t (s\<lparr>torch := w\<rparr>)))" for t w p
    using torch_only_trans[OF a batches_frame] .
  show ?thesis
    by (simp add: run_phase_def split_def Let_def a b)
qed

lemma run_phase_result:
  "fst (run_phase E ph dl s) = Inl e \<longleftrightarrow> dl = [] \<and> e = ZeroDivisionError"
  by (auto simp add: run_phase_def split_def Let_def)

lemma run_phase_empty: "fst (run_phase E ph [] s) = Inl ZeroDivisionError"
  by (simp add: run_phase_def)

lemma run_phase_nonempty:
  "dl \<noteq> [] \<Longrightarrow> fst (run_phase E ph dl s) =
     Inr (fdiv E (fst (batches E ph dl (Fin 0)
       (s\<lparr>torch := (if ph = Train then model_train E else model_eval E) (torch s)\<rparr>))) (length dl))"
  by (simp add: run_phase_def split_def Let_def)

lemma run_phases_snd:
  "snd (run_phases E tr va s) =
     (if tr = [] then snd (run_phase E Train tr s)
      else snd (run_phase E Val va (snd (run_phase E Train tr s))))"
  using run_phase_empty[of E Train s] run_phase_nonempty[of tr E Train s]
  by (cases "run_phase E Train tr s"; cases "run_phase E Val va (snd (run_phase E Train tr s))")
     (auto simp add: run_phases_def split: sum.splits)

lemma run_phases_frame: "torch_only s (snd (run_phases E tr va s))"
  using run_phase_frame[of s E Train tr]
    torch_only_trans[OF run_phase_frame[of s E Train tr] run_phase_frame[of _ E Val va]]
  by (cases "tr = []") (simp_all add: run_phases_snd)

lemma run_phases_fst:
  "fst (run_phases E tr va s) =
     (if tr = [] \<or> va = [] then Inl ZeroDivisionError
      else Inr (projr (fst (run_phase E Train tr s)),
                projr (fst (run_phase E Val va (snd (run_phase E Train tr s))))))"
  by (cases "tr = []"; cases "va = []")
     (simp_all add: run_phases_def split_def run_phase_empty run_phase_nonempty)

section \<open>The epoch loop\<close>

lemma epoch_loop_Cons:
  "epoch_loop E tr va (e # es) s =
     (let s1 = snd (run_phases E tr va (s\<lparr>epoch := Some e\<rparr>)) in
      case fst (run_phases E tr va (s\<lparr>epoch := Some e\<rparr>)) of
        Inl err \<Rightarrow> (Raised err, s1)
      | Inr avg \<Rightarrow>
          (let s2 = s1\<lparr>printed := printed s1 @ [Progress e (fst avg) (snd avg)]\<rparr>;
               s3 = snd (early_stopping E (snd avg) s2)
           in if fst (early_stopping E (snd avg) s2)
              then (Break, s3\<lparr>printed := printed s3 @ [Terminated (patience s3)]\<rparr>)
              else epoch_loop E tr va es s3))"
  by (simp add: Let_def split_def split: sum.splits prod.splits)

declare epoch_loop.simps(2) [simp del]

lemmas rp_fields = torch_only_fields[OF run_phases_frame]

lemma epoch_loop_no_break:
  assumes "patience s \<le> 0" "0 \<le> no_improve_count s"
  shows "fst (epoch_loop E tr va es s) \<noteq> Break \<and>
         0 \<le> no_improve_count (snd (epoch_loop E tr va es s)) \<and>
         (tr \<noteq> [] \<and> va \<noteq> [] \<longrightarrow> fst (epoch_loop E tr va es s) = Exhausted \<and>
            epochs_of (printed (snd (epoch_loop E tr va es s))) = epochs_of (printed s) @ es)"
  using assms
proof (induction es arbitrary: s)
  case Nil
  then show ?case by simp
next
  case (Cons e es)
  let ?s0 = "s\<lparr>epoch := Some e\<rparr>"
  let ?s1 = "snd (run_phases E tr va ?s0)"
  show ?case
  proof (cases "fst (run_phases E tr va ?s0)")
    case (Inl err)
    then have "tr = [] \<or> va = []" by (simp add: run_phases_fst split: if_splits)
    with Inl Cons.prems show ?thesis
      by (simp add: epoch_loop_Cons rp_fields)
  next
    case (Inr avg)
    then have ne: "tr \<noteq> [] \<and> va \<noteq> []" by (simp add: run_phases_fst split: if_splits)
    let ?s2 = "?s1\<lparr>printed := printed ?s1 @ [Progress e (fst avg) (snd avg)]\<rparr>"
    let ?s3 = "snd (early_stopping E (snd avg) ?s2)"
    have p2: "patience ?s2 \<le> 0" "0 \<le> no_improve_count ?s2"
      using Cons.prems by (simp_all add: rp_fields)
    then have nostop: "\<not> fst (early_stopping E (snd avg) ?s2)"
      by (simp add: early_stopping_result)
    have p3: "patience ?s3 \<le> 0" "0 \<le> no_improve_count ?s3"
      using p2 by (simp_all add: early_stopping_fields early_stopping_count)
    have pr: "printed ?s3 = printed s @ [Progress e (fst avg) (snd avg)]"
      by (simp add: early_stopping_fields rp_fields)
    have eq: "epoch_loop E tr va (e # es) s = epoch_loop E tr va es ?s3"
      using Inr nostop by (simp add: epoch_loop_Cons Let_def)
    show ?thesis
      using Cons.IH[OF p3] ne by (simp add: eq pr epochs_of_append)
  qed
qed

lemma fit_setup_fields:
  "patience (snd (fit_setup E tr s)) = patience s"
  "max_epochs (snd (fit_setup E tr s)) = max_epochs s"
  "start_epoch (snd (fit_setup E tr s)) = start_epoch s"
  "best_val_loss (snd (fit_setup E tr s)) = best_val_loss s"
  "no_improve_count (snd (fit_setup E tr s)) = no_improve_count s"
  "written (snd (fit_setup E tr s)) = written s"
  "wandb_run (snd (fit_setup E tr s)) = wandb_run s"
  "save_best_model (snd (fit_setup E tr s)) = save_best_model s"
  "checkpoint (snd (fit_setup E tr s)) = checkpoint s"
  "lr (snd (fit_setup E tr s)) = lr s"
  "epoch (snd (fit_setup E tr s)) = None"
  "val_losses (printed (snd (fit_setup E tr s))) = val_losses (printed s)"
  "epochs_of (printed (snd (fit_setup E tr s))) = epochs_of (printed s)"
  by (simp_all add: fit_setup_def find_optimal_lr_def OneCycleLR_def Let_def split_def
      val_losses_append epochs_of_append)

lemma fit_setup_raised:
  "fst (fit_setup E tr s) =
     (if use_scheduler s \<and> (max_epochs s \<le> 0 \<or> tr = []) then Some ValueError else None)"
  by (simp add: fit_setup_def find_optimal_lr_def OneCycleLR_def Let_def split_def)

lemma fit_decomp:
  "fit E tr va s =
     (case fst (fit_setup E tr s) of
        Some err \<Rightarrow> (Raised err, snd (fit_setup E tr s))
      | None \<Rightarrow>
          fit_finish (epoch_loop E tr va [start_epoch s .. max_epochs s]
            (snd (fit_setup E tr s))))"
proof -
  have "fit E tr va s =
     (case fst (fit_setup E tr s) of
        Some err \<Rightarrow> (Raised err, snd (fit_setup E tr s))
      | None \<Rightarrow>
          fit_finish (epoch_loop E tr va
            [start_epoch (snd (fit_setup E tr s)) .. max_epochs (snd (fit_setup E tr s))]
            (snd (fit_setup E tr s))))"
  proof (cases "use_scheduler s")
    case False
    then show ?thesis
      unfolding fit_def fit_setup_def fit_finish_def Let_def by simp
  next
    case sched: True
    show ?thesis
    proof (cases "max_epochs s \<le> 0 \<or> tr = []")
      case True
      with sched show ?thesis
        unfolding fit_def fit_setup_def fit_finish_def Let_def
        by (auto simp add: OneCycleLR_def find_optimal_lr_def split_def)
    next
      case False
      with sched show ?thesis
        unfolding fit_def fit_setup_def fit_finish_def Let_def
        by (cases "max_lr s < 0") (simp_all add: OneCycleLR_def find_optimal_lr_def split_def)
    qed
  qed
  then show ?thesis by (simp only: fit_setup_fields)
qed

lemma fit_raised:
  "use_scheduler s \<and> (max_epochs s \<le> 0 \<or> tr = []) \<Longrightarrow>
     fit E tr va s = (Raised ValueError, snd (fit_setup E tr s))"
  by (simp add: fit_decomp fit_setup_raised)

lemma fit_not_raised:
  "\<not> (use_scheduler s \<and> (max_epochs s \<le> 0 \<or> tr = [])) \<Longrightarrow>
     fit E tr va s =
       fit_finish (epoch_loop E tr va [start_epoch s .. max_epochs s] (snd (fit_setup E tr s)))"
  by (auto simp add: fit_decomp fit_setup_raised)

lemma fit_finish_fields:
  "patience (snd (fit_finish r)) = patience (snd r)"
  "max_epochs (snd (fit_finish r)) = max_epochs (snd r)"
  "best_val_loss (snd (fit_finish r)) = best_val_loss (snd r)"
  "no_improve_count (snd (fit_finish r)) = no_improve_count (snd r)"
  "written (snd (fit_finish r)) = written (snd r)"
  "checkpoint (snd (fit_finish r)) = checkpoint (snd r)"
  "printed (snd (fit_finish r)) = printed (snd r)"
  "epoch (snd (fit_finish r)) = epoch (snd r)"
  "torch (snd (fit_finish r)) = torch (snd r)"
  by (cases r; simp add: fit_finish_def split: exit.splits option.splits)+

lemma fit_finish_exit:
  "fst (fit_finish r) =
     (if fst r \<noteq> Exhausted \<and> fst r \<noteq> Break then fst r
      else if wandb_run (snd r) \<and> epoch (snd r) = None then Raised UnboundLocalError
      else fst r)"
  by (cases r) (simp add: fit_finish_def split: exit.splits option.splits)

lemma epoch_loop_fields:
  "patience (snd (epoch_loop E tr va es s)) = patience s \<and>
   max_epochs (snd (epoch_loop E tr va es s)) = max_epochs s \<and>
   written (snd (epoch_loop E tr va es s)) = written s \<and>
   wandb_run (snd (epoch_loop E tr va es s)) = wandb_run s \<and>
   save_best_model (snd (epoch_loop E tr va es s)) = save_best_model s \<and>
   start_epoch (snd (epoch_loop E tr va es s)) = start_epoch s"
proof (induction es arbitrary: s)
  case Nil
  show ?case by simp
next
  case (Cons e es)
  show ?case
    by (simp add: epoch_loop_Cons Let_def Cons.IH rp_fields early_stopping_fields
        split: sum.splits)
qed

lemma calls_no_stop:
  "patience s \<le> 0 \<Longrightarrow> 0 \<le> no_improve_count s \<Longrightarrow>
     \<forall>r\<in>set (fst (early_stopping_calls E vs s)). \<not> r"
proof (induction vs arbitrary: s)
  case Nil
  show ?case by simp
next
  case (Cons v vs)
  have "patience (snd (early_stopping E v s)) \<le> 0"
    "0 \<le> no_improve_count (snd (early_stopping E v s))"
    using Cons.prems by (simp_all add: early_stopping_fields early_stopping_count)
  from Cons.IH[OF this] Cons.prems show ?case
    by (simp add: split_def Let_def early_stopping_result)
qed

lemma epoch_loop_epoch_var:
  "(es = [] \<longrightarrow> epoch (snd (epoch_loop E tr va es s)) = epoch s) \<and>
   (es \<noteq> [] \<longrightarrow> (\<exists>e\<in>set es. epoch (snd (epoch_loop E tr va es s)) = Some e))"
proof (induction es arbitrary: s)
  case Nil
  show ?case by simp
next
  case (Cons e es)
  show ?case
  proof (cases "es = []")
    case True
    then show ?thesis
      by (simp add: epoch_loop_Cons Let_def rp_fields early_stopping_fields split: sum.splits)
  next
    case False
    then show ?thesis
      using Cons.IH
      by (simp add: epoch_loop_Cons Let_def rp_fields early_stopping_fields split: sum.splits)
  qed
qed

lemma fit_never_breaks:
  assumes "patience s \<le> 0" "0 \<le> no_improve_count s"
  shows "fst (fit E tr va s) \<noteq> Break \<and>
     (tr \<noteq> [] \<and> va \<noteq> [] \<and>
      (use_scheduler s \<and> start_epoch s \<le> max_epochs s \<longrightarrow> 1 \<le> max_epochs s) \<longrightarrow>
        epochs_of (printed (snd (fit E tr va s))) =
          epochs_of (printed s) @ [start_epoch s .. max_epochs s] \<and>
        (start_epoch s \<le> max_epochs s \<longrightarrow> fst (fit E tr va s) = Exhausted)) \<and>
     (use_scheduler s \<and> (max_epochs s \<le> 0 \<or> tr = []) \<longrightarrow>
        fst (fit E tr va s) = Raised ValueError \<and>
        epochs_of (printed (snd (fit E tr va s))) = epochs_of (printed s))"
proof (cases "use_scheduler s \<and> (max_epochs s \<le> 0 \<or> tr = [])")
  case True
  then show ?thesis
    by (auto simp add: fit_raised fit_setup_fields)
next
  case False
  let ?s0 = "snd (fit_setup E tr s)"
  let ?es = "[start_epoch s .. max_epochs s]"
  let ?r = "epoch_loop E tr va ?es ?s0"
  have h: "patience ?s0 \<le> 0" "0 \<le> no_improve_count ?s0"
    using assms by (simp_all add: fit_setup_fields)
  note nb = epoch_loop_no_break[OF h, of E tr va ?es]
  have f: "fit E tr va s = fit_finish ?r"
    using False by (rule fit_not_raised)
  have ev: "start_epoch s \<le> max_epochs s \<Longrightarrow> epoch (snd ?r) \<noteq> None"
    using epoch_loop_epoch_var[of ?es E tr va ?s0] by auto
  have "fst (fit E tr va s) \<noteq> Break \<and>
     (tr \<noteq> [] \<and> va \<noteq> [] \<and>
      (use_scheduler s \<and> start_epoch s \<le> max_epochs s \<longrightarrow> 1 \<le> max_epochs s) \<longrightarrow>
        epochs_of (printed (snd (fit E tr va s))) =
          epochs_of (printed s) @ [start_epoch s .. max_epochs s] \<and>
        (start_epoch s \<le> max_epochs s \<longrightarrow> fst (fit E tr va s) = Exhausted))"
    using nb ev unfolding f
    by (auto simp add: fit_finish_exit fit_finish_fields fit_setup_fields)
  with False show ?thesis by blast
qed

text \<open>
  C4. With \<^verbatim>\<open>patience = -1\<close> early stopping is disabled. The counter starts at 0 and is
  only reset to 0 or incremented, so it is never negative. From every such trainer and
  for every sequence of validation losses no call of \<^verbatim>\<open>_early_stopping\<close> returns
  \<open>True\<close>; \<^verbatim>\<open>fit\<close> never takes the early-stopping \<^verbatim>\<open>break\<close>, and with non-empty
  dataloaders it prints a progress line for every epoch from \<^verbatim>\<open>start_epoch\<close> to
  \<^verbatim>\<open>max_epochs\<close> and ends by exhausting the range. Where the scheduler's constructor
  refuses its arguments, \<^verbatim>\<open>fit\<close> raises \<^verbatim>\<open>ValueError\<close> and prints no progress line; on a
  trainer with \<^verbatim>\<open>start_epoch = 1\<close>, as \<^verbatim>\<open>__init__\<close> builds it, and with a training batch,
  the range of epochs is empty then, so that all its epochs have run there too.
\<close>

theorem patience_minus_one_disables_early_stopping:
  assumes "patience self = - 1" and "0 \<le> no_improve_count self"
  shows "(\<forall>r\<in>set (fst (early_stopping_calls E vs self)). \<not> r) \<and>
     fst (fit E tr va self) \<noteq> Break \<and>
     (tr \<noteq> [] \<and> va \<noteq> [] \<and>
      (use_scheduler self \<and> start_epoch self \<le> max_epochs self \<longrightarrow> 1 \<le> max_epochs self) \<longrightarrow>
        epochs_of (printed (snd (fit E tr va self))) =
          epochs_of (printed self) @ [start_epoch self .. max_epochs self] \<and>
        (start_epoch self \<le> max_epochs self \<longrightarrow> fst (fit E tr va self) = Exhausted)) \<and>
     (use_scheduler self \<and> (max_epochs self \<le> 0 \<or> tr = []) \<longrightarrow>
        fst (fit E tr va self) = Raised ValueError \<and>
        epochs_of (printed (snd (fit E tr va self))) = epochs_of (printed self))"
  using calls_no_stop[of self E vs] fit_never_breaks[of self E tr va] assms by simp

theorem patience_minus_one_disables_early_stopping_witness:
  "patience (example_trainer\<lparr>patience := - 1\<rparr>) = - 1 \<and>
   0 \<le> no_improve_count (example_trainer\<lparr>patience := - 1\<rparr>) \<and>
   fst (early_stopping_calls example_env [Fin 2, Fin 3, Fin 4]
        (example_trainer\<lparr>patience := - 1\<rparr>)) = [False, False, False] \<and>
   fst (fit example_env [Fin 1] [Fin 2] (example_trainer\<lparr>patience := - 1\<rparr>)) = Exhausted \<and>
   epochs_of (printed (snd (fit example_env [Fin 1] [Fin 2]
        (example_trainer\<lparr>patience := - 1\<rparr>)))) = [1, 2, 3]"
proof -
  have a: "patience (example_trainer\<lparr>patience := - 1\<rparr>) = - 1" by simp
  have b: "0 \<le> no_improve_count (example_trainer\<lparr>patience := - 1\<rparr>)"
    by (simp add: example_trainer_def init_def)
  have c: "start_epoch (example_trainer\<lparr>patience := - 1\<rparr>) = 1"
     "max_epochs (example_trainer\<lparr>patience := - 1\<rparr>) = 3"
     "printed (example_trainer\<lparr>patience := - 1\<rparr>) = []"
     "\<not> use_scheduler (example_trainer\<lparr>patience := - 1\<rparr>)"
    by (simp_all add: example_trainer_def init_def example_config_def dict_get_def)
  have d: "[1 .. 3::int] = [1, 2, 3]" by (simp add: upto.simps)
  note th = patience_minus_one_disables_early_stopping[OF a b, of example_env "[Fin 2, Fin 3, Fin 4]" "[Fin 1]" "[Fin 2]"]
  have e: "fst (fit example_env [Fin 1] [Fin 2] (example_trainer\<lparr>patience := - 1\<rparr>)) = Exhausted \<and>
     epochs_of (printed (snd (fit example_env [Fin 1] [Fin 2]
        (example_trainer\<lparr>patience := - 1\<rparr>)))) = [1, 2, 3]"
    using th[THEN conjunct2, THEN conjunct2, THEN conjunct1] by (simp add: c d)
  have l: "length (fst (early_stopping_calls example_env [Fin 2, Fin 3, Fin 4]
        (example_trainer\<lparr>patience := - 1\<rparr>))) = 3"
    by (simp only: calls_length) simp
  have g: "rs = [False, False, False]" if "length rs = 3" "\<forall>r\<in>set rs. \<not> r" for rs
    using that by (auto simp add: length_Suc_conv numeral_3_eq_3)
  have f: "fst (early_stopping_calls example_env [Fin 2, Fin 3, Fin 4]
        (example_trainer\<lparr>patience := - 1\<rparr>)) = [False, False, False]"
    by (rule g[OF l th[THEN conjunct1]])
  show ?thesis
    using a b f e by blast
qed

text \<open>
  C9. With \<^verbatim>\<open>patience = 0\<close> early stopping is disabled as well: the counter is compared
  with the patience only after it has been incremented, so it is at least 1 then. No
  call of \<^verbatim>\<open>_early_stopping\<close> returns \<open>True\<close>, and \<^verbatim>\<open>fit\<close> with non-empty dataloaders
  runs every epoch from \<^verbatim>\<open>start_epoch\<close> to \<^verbatim>\<open>max_epochs\<close>, whatever the losses.
  Where the scheduler's constructor refuses its arguments, \<^verbatim>\<open>fit\<close> raises
  \<^verbatim>\<open>ValueError\<close> and prints no progress line; on a trainer with \<^verbatim>\<open>start_epoch = 1\<close> and
  with a training batch the range of epochs is empty then.
\<close>

theorem patience_zero_disables_early_stopping:
  assumes "patience self = 0" and "0 \<le> no_improve_count self"
  shows "(\<forall>r\<in>set (fst (early_stopping_calls E vs self)). \<not> r) \<and>
     1 \<le> no_improve_count (snd (early_stopping E v self)) + (if flt v (best_val_loss self) then 1 else 0) \<and>
     fst (fit E tr va self) \<noteq> Break \<and>
     (tr \<noteq> [] \<and> va \<noteq> [] \<and>
      (use_scheduler self \<and> start_epoch self \<le> max_epochs self \<longrightarrow> 1 \<le> max_epochs self) \<longrightarrow>
        epochs_of (printed (snd (fit E tr va self))) =
          epochs_of (printed self) @ [start_epoch self .. max_epochs self] \<and>
        (start_epoch self \<le> max_epochs self \<longrightarrow> fst (fit E tr va self) = Exhausted)) \<and>
     (use_scheduler self \<and> (max_epochs self \<le> 0 \<or> tr = []) \<longrightarrow>
        fst (fit E tr va self) = Raised ValueError \<and>
        epochs_of (printed (snd (fit E tr va self))) = epochs_of (printed self))"
  using calls_no_stop[of self E vs] fit_never_breaks[of self E tr va] assms
  by (simp add: early_stopping_count)

theorem patience_zero_disables_early_stopping_witness:
  "patience (example_trainer\<lparr>patience := 0\<rparr>) = 0 \<and>
   0 \<le> no_improve_count (example_trainer\<lparr>patience := 0\<rparr>) \<and>
   fst (early_stopping_calls example_env [Fin 2, Fin 3, Fin 4]
        (example_trainer\<lparr>patience := 0\<rparr>)) = [False, False, False] \<and>
   fst (fit example_env [Fin 1] [Fin 2] (example_trainer\<lparr>patience := 0\<rparr>)) = Exhausted \<and>
   epochs_of (printed (snd (fit example_env [Fin 1] [Fin 2]
        (example_trainer\<lparr>patience := 0\<rparr>)))) = [1, 2, 3]"
proof -
  have a: "patience (example_trainer\<lparr>patience := 0\<rparr>) = 0" by simp
  have b: "0 \<le> no_improve_count (example_trainer\<lparr>patience := 0\<rparr>)"
    by (simp add: example_trainer_def init_def)
  have c: "start_epoch (example_trainer\<lparr>patience := 0\<rparr>) = 1"
     "max_epochs (example_trainer\<lparr>patience := 0\<rparr>) = 3"
     "printed (example_trainer\<lparr>patience := 0\<rparr>) = []"
     "\<not> use_scheduler (example_trainer\<lparr>patience := 0\<rparr>)"
    by (simp_all add: example_trainer_def init_def example_config_def dict_get_def)
  have d: "[1 .. 3::int] = [1, 2, 3]" by (simp add: upto.simps)
  note th = patience_zero_disables_early_stopping[OF a b, of example_env "[Fin 2, Fin 3, Fin 4]" "Fin 2" "[Fin 1]" "[Fin 2]"]
  have e: "fst (fit example_env [Fin 1] [Fin 2] (example_trainer\<lparr>patience := 0\<rparr>)) = Exhausted \<and>
     epochs_of (printed (snd (fit example_env [Fin 1] [Fin 2]
        (example_trainer\<lparr>patience := 0\<rparr>)))) = [1, 2, 3]"
    using th[THEN conjunct2, THEN conjunct2, THEN conjunct2, THEN conjunct1] by (simp add: c d)
  have l: "length (fst (early_stopping_calls example_env [Fin 2, Fin 3, Fin 4]
        (example_trainer\<lparr>patience := 0\<rparr>))) = 3"
    by (simp only: calls_length) simp
  have g: "rs = [False, False, False]" if "length rs = 3" "\<forall>r\<in>set rs. \<not> r" for rs
    using that by (auto simp add: length_Suc_conv numeral_3_eq_3)
  have f: "fst (early_stopping_calls example_env [Fin 2, Fin 3, Fin 4]
        (example_trainer\<lparr>patience := 0\<rparr>)) = [False, False, False]"
    by (rule g[OF l th[THEN conjunct1]])
  show ?thesis
    using a b f e by blast
qed

section \<open>Configuration\<close>

text \<open>
  C10. For a newly constructed trainer, \<^verbatim>\<open>config()\<close> returns for each of the six keys the
  value of the input dictionary when the key is present and the module default when it
  is absent; when all six keys are present the result is the input dictionary cut down
  to these six keys, unchanged.
\<close>

theorem config_round_trip:
  fixes c :: "'z config_dict_scheme"
  shows "let t = (init m c w :: ('w, 'sd) state) in
     cfg_max_epochs (config t) = Some (case cfg_max_epochs c of None \<Rightarrow> MAX_EPOCHS | Some v \<Rightarrow> v) \<and>
     cfg_patience (config t) = Some (case cfg_patience c of None \<Rightarrow> PATIENCE | Some v \<Rightarrow> v) \<and>
     cfg_lr (config t) = Some (case cfg_lr c of None \<Rightarrow> LR | Some v \<Rightarrow> v) \<and>
     cfg_max_lr (config t) = Some (case cfg_max_lr c of None \<Rightarrow> MAX_LR | Some v \<Rightarrow> v) \<and>
     cfg_use_scheduler (config t) =
       Some (case cfg_use_scheduler c of None \<Rightarrow> USE_SCHEDULER | Some v \<Rightarrow> v) \<and>
     cfg_save_best_model (config t) =
       Some (case cfg_save_best_model c of None \<Rightarrow> SAVE_BEST_MODEL | Some v \<Rightarrow> v) \<and>
     (cfg_max_epochs c \<noteq> None \<and> cfg_patience c \<noteq> None \<and> cfg_lr c \<noteq> None \<and>
      cfg_max_lr c \<noteq> None \<and> cfg_use_scheduler c \<noteq> None \<and> cfg_save_best_model c \<noteq> None
      \<longrightarrow> config t = config_dict.truncate c)"
  by (auto simp add: Let_def config_def init_def dict_get_def config_dict.truncate_def)

theorem config_round_trip_witness:
  "config (example_trainer) = example_config \<and>
   cfg_patience (config (init (0::nat) \<lparr>cfg_max_epochs = Some 5, cfg_patience = None,
       cfg_lr = None, cfg_max_lr = None, cfg_use_scheduler = None,
       cfg_save_best_model = None\<rparr> False :: (nat, nat) state)) = Some 10"
proof -
  have "config example_trainer = config_dict.truncate example_config"
    unfolding example_trainer_def
    using config_round_trip[where 'sd = nat and 'w = nat, of 0 example_config False]
    by (simp add: example_config_def Let_def)
  moreover have "config_dict.truncate example_config = example_config"
    by (simp add: config_dict.truncate_def example_config_def)
  moreover have "cfg_patience (config (init (0::nat) \<lparr>cfg_max_epochs = Some 5, cfg_patience = None,
       cfg_lr = None, cfg_max_lr = None, cfg_use_scheduler = None,
       cfg_save_best_model = None\<rparr> False :: (nat, nat) state)) = Some 10"
    using config_round_trip[where c = "\<lparr>cfg_max_epochs = Some 5, cfg_patience = None,
       cfg_lr = None, cfg_max_lr = None, cfg_use_scheduler = None,
       cfg_save_best_model = None\<rparr>" and 'sd = nat and 'w = nat and m = 0 and w = False]
    by (simp add: PATIENCE_def Let_def)
  ultimately show ?thesis by simp
qed

section \<open>The checkpoint is kept in memory\<close>

lemma epoch_loop_written: "written (snd (epoch_loop E tr va es s)) = written s"
  using epoch_loop_fields[of E tr va es s] by simp

lemma fit_written: "written (snd (fit E tr va s)) = written s"
  by (cases "use_scheduler s \<and> (max_epochs s \<le> 0 \<or> tr = [])")
     (simp_all add: fit_raised fit_not_raised fit_finish_fields epoch_loop_written
        fit_setup_fields)

lemma early_stopping_checkpoint:
  "checkpoint (snd (early_stopping E v self)) =
     (if save_best_model self \<and> flt v (best_val_loss self)
      then Some (state_dict E (torch self)) else checkpoint self)"
  by (simp add: early_stopping_def save_checkpoint_def Let_def)

text \<open>
  Where the state dict refers to the model's own tensors, as in the framework, loading
  the checkpoint gives the model back as it is: the checkpoint restores nothing.
\<close>

lemma test_load_checkpoint_aliased:
  assumes "\<And>d w. load_state_dict E d w = w"
  shows "test_load_checkpoint E self =
     (if save_best_model self \<and> checkpoint self = None then Inl AttributeError else Inr self)"
  using assms by (simp add: test_load_checkpoint_def split: option.splits)

text \<open>
  C3 is right and the code breaks it. \<^verbatim>\<open>_save_checkpoint\<close> is meant to keep a snapshot of
  the best weights, which \<^verbatim>\<open>test\<close> loads back, but it keeps the dictionary of the
  model's live tensors without copying them. In the example the validation loss
  improves in the first epoch only. Read after that epoch, the checkpoint gives the
  weights of one optimizer step; read after the two non-improving epochs that follow,
  the same checkpoint gives the weights of three steps. So what the checkpoint holds
  changes on non-improving epochs.
\<close>

theorem checkpoint_follows_live_parameters:
  "save_best_model example_trainer \<and>
   val_losses (printed (snd (fit example_env [Fin 1] [Fin 1] example_trainer)))
     = [Fin 1, Fin 1, Fin 1] \<and>
   checkpoint (snd (fit example_env [Fin 1] [Fin 1] example_trainer)) =
     checkpoint (snd (fit example_env [Fin 1] [Fin 1] (example_trainer\<lparr>max_epochs := 1\<rparr>))) \<and>
   map_sum id torch (test_load_checkpoint example_env
       (snd (fit example_env [Fin 1] [Fin 1] (example_trainer\<lparr>max_epochs := 1\<rparr>)))) = Inr 1 \<and>
   map_sum id torch (test_load_checkpoint example_env
       (snd (fit example_env [Fin 1] [Fin 1] example_trainer))) = Inr 3"
  by code_simp

text \<open>
  C2 as stated fails: the trainer of the example saves the best model, its first
  validation loss improves on the initial infinity, and yet neither the call of
  \<^verbatim>\<open>_early_stopping\<close> nor the whole of \<^verbatim>\<open>fit\<close> writes the file \<^verbatim>\<open>best.pth\<close>.
\<close>

theorem no_checkpoint_file_written_on_improvement:
  "flt (Fin 1) (best_val_loss example_trainer) \<and>
   save_best_model example_trainer \<and>
   written (snd (early_stopping example_env (Fin 1) example_trainer)) CHECKPOINT_FILENAME = None \<and>
   val_losses (printed (snd (fit example_env [Fin 1] [Fin 1] example_trainer))) \<noteq> [] \<and>
   written (snd (fit example_env [Fin 1] [Fin 1] example_trainer)) CHECKPOINT_FILENAME = None"
  by code_simp

text \<open>
  C2, amended. On a strict improvement of the validation loss the trainer keeps the
  snapshot in memory only: if \<^verbatim>\<open>save_best_model\<close> is on, \<^verbatim>\<open>_early_stopping\<close> binds
  \<^verbatim>\<open>self.checkpoint\<close> to the model's state dict; neither \<^verbatim>\<open>_early_stopping\<close> nor
  \<^verbatim>\<open>fit\<close> writes any file.
\<close>

theorem improvement_keeps_snapshot_in_memory_only:
  assumes "flt v (best_val_loss self)"
  shows "(save_best_model self \<longrightarrow>
            checkpoint (snd (early_stopping E v self)) = Some (state_dict E (torch self))) \<and>
         written (snd (early_stopping E v self)) = written self \<and>
         written (snd (fit E tr va self)) = written self"
  using assms by (simp add: fit_written early_stopping_fields)
    (simp add: early_stopping_def save_checkpoint_def)

theorem improvement_keeps_snapshot_in_memory_only_witness:
  "flt (Fin 1) (best_val_loss example_trainer) \<and>
   checkpoint (snd (early_stopping example_env (Fin 1) example_trainer)) = Some 0 \<and>
   written (snd (fit example_env [Fin 1] [Fin 1] example_trainer)) = Map.empty"
proof -
  have a: "flt (Fin 1) (best_val_loss example_trainer)"
    by (simp add: example_trainer_def init_def)
  have b: "save_best_model example_trainer" "torch example_trainer = 0"
    "written example_trainer = Map.empty"
    by (simp_all add: example_trainer_def init_def example_config_def dict_get_def)
  show ?thesis
    using improvement_keeps_snapshot_in_memory_only[OF a, of example_env "[Fin 1]" "[Fin 1]"] a
    by (simp add: b example_env_def)
qed

section \<open>The loss of a phase\<close>

lemma batches_total:
  "fst (batches E ph bs t s) = foldl (fadd E) t (batch_losses E ph bs s)"
  by (induction bs arbitrary: t s) (simp_all add: split_def Let_def)

lemma batch_losses_length: "length (batch_losses E ph bs s) = length bs"
  by (induction bs arbitrary: s) (simp_all add: split_def Let_def)

lemma phase_losses_length: "length (phase_losses E ph dl s) = length dl"
  by (simp add: phase_losses_def batch_losses_length)

lemma run_phase_mean:
  "dl \<noteq> [] \<Longrightarrow> fst (run_phase E ph dl s) = Inr (mean_loss E (phase_losses E ph dl s))"
  by (simp add: run_phase_nonempty batches_total mean_loss_def fsum_def phase_losses_def
      batch_losses_length)

lemma foldl_fadd_exact:
  "round_float E = Fin \<Longrightarrow> foldl (fadd E) (Fin a) (map Fin rs) = Fin (a + sum_list rs)"
  by (induction rs arbitrary: a) (simp_all add: add.assoc)

lemma mean_loss_exact:
  "round_float E = Fin \<Longrightarrow> mean_loss E (map Fin rs) = Fin (sum_list rs / real (length rs))"
  by (simp add: mean_loss_def fsum_def foldl_fadd_exact)

lemma epoch_loop_printed_prefix:
  "length (printed s) \<le> length (printed (snd (epoch_loop E tr va es s))) \<and>
   take (length (printed s)) (printed (snd (epoch_loop E tr va es s))) = printed s"
proof (induction es arbitrary: s)
  case Nil
  show ?case by simp
next
  case (Cons e es)
  let ?s0 = "s\<lparr>epoch := Some e\<rparr>"
  let ?s1 = "snd (run_phases E tr va ?s0)"
  show ?case
  proof (cases "fst (run_phases E tr va ?s0)")
    case (Inl err)
    then show ?thesis by (simp add: epoch_loop_Cons rp_fields)
  next
    case (Inr avg)
    let ?s2 = "?s1\<lparr>printed := printed ?s1 @ [Progress e (fst avg) (snd avg)]\<rparr>"
    let ?s3 = "snd (early_stopping E (snd avg) ?s2)"
    have pr: "printed ?s3 = printed s @ [Progress e (fst avg) (snd avg)]"
      by (simp add: early_stopping_fields rp_fields)
    show ?thesis
    proof (cases "fst (early_stopping E (snd avg) ?s2)")
      case True
      with Inr show ?thesis
        by (simp add: epoch_loop_Cons Let_def pr)
    next
      case False
      have "take (length (printed s)) (printed (snd (epoch_loop E tr va es ?s3)))
          = take (length (printed s)) (take (length (printed ?s3)) (printed (snd (epoch_loop E tr va es ?s3))))"
        by (simp add: pr min_def)
      also have "\<dots> = printed s"
        using Cons.IH[of ?s3] by (simp add: pr)
      finally show ?thesis
        using Inr False Cons.IH[of ?s3] by (simp add: epoch_loop_Cons Let_def pr)
    qed
  qed
qed

lemma epoch_loop_first_line:
  assumes "tr \<noteq> []" "va \<noteq> []"
  shows "take (Suc (length (printed s))) (printed (snd (epoch_loop E tr va (e # es) s))) =
     printed s @ [Progress e
       (mean_loss E (phase_losses E Train tr (s\<lparr>epoch := Some e\<rparr>)))
       (mean_loss E (phase_losses E Val va (snd (run_phase E Train tr (s\<lparr>epoch := Some e\<rparr>)))))]"
proof -
  let ?s0 = "s\<lparr>epoch := Some e\<rparr>"
  let ?s1 = "snd (run_phases E tr va ?s0)"
  let ?a = "mean_loss E (phase_losses E Train tr ?s0)"
  let ?b = "mean_loss E (phase_losses E Val va (snd (run_phase E Train tr ?s0)))"
  have r: "fst (run_phases E tr va ?s0) = Inr (?a, ?b)"
    using assms by (simp add: run_phases_fst run_phase_mean)
  let ?s2 = "?s1\<lparr>printed := printed ?s1 @ [Progress e ?a ?b]\<rparr>"
  let ?s3 = "snd (early_stopping E ?b ?s2)"
  have pr: "printed ?s3 = printed s @ [Progress e ?a ?b]"
    by (simp add: early_stopping_fields rp_fields)
  show ?thesis
  proof (cases "fst (early_stopping E ?b ?s2)")
    case True
    then show ?thesis
      using r by (simp add: epoch_loop_Cons Let_def pr)
  next
    case False
    then show ?thesis
      using r epoch_loop_printed_prefix[of ?s3 E tr va es]
      by (simp add: epoch_loop_Cons Let_def pr)
  qed
qed

text \<open>
  C7. For non-empty train and validation dataloaders, the loss of each phase of an epoch
  is the arithmetic mean of the phase's per-batch losses: their float sum from 0.0, one
  summand per batch, divided by the number of batches of that phase's dataloader. These
  two means are what the progress line of the epoch reports. Where float arithmetic is
  exact, the mean of finite losses is their real sum divided by their number.
\<close>

theorem phase_loss_is_mean_of_batch_losses:
  assumes "train_dataloader \<noteq> []" and "val_dataloader \<noteq> []"
  shows "fst (run_phases E train_dataloader val_dataloader self) =
       Inr (fdiv E (fsum E (phase_losses E Train train_dataloader self))
              (length train_dataloader),
            fdiv E (fsum E (phase_losses E Val val_dataloader
                        (snd (run_phase E Train train_dataloader self))))
              (length val_dataloader)) \<and>
     length (phase_losses E Train train_dataloader self) = length train_dataloader \<and>
     length (phase_losses E Val val_dataloader
               (snd (run_phase E Train train_dataloader self))) = length val_dataloader \<and>
     take (Suc (length (printed self)))
          (printed (snd (epoch_loop E train_dataloader val_dataloader (e # es) self))) =
       printed self @ [Progress e
         (mean_loss E (phase_losses E Train train_dataloader (self\<lparr>epoch := Some e\<rparr>)))
         (mean_loss E (phase_losses E Val val_dataloader
            (snd (run_phase E Train train_dataloader (self\<lparr>epoch := Some e\<rparr>)))))] \<and>
     (round_float E = Fin \<longrightarrow> mean_loss E (map Fin rs) = Fin (sum_list rs / real (length rs)))"
  using assms
  by (simp add: run_phases_fst run_phase_mean mean_loss_def[symmetric] phase_losses_length
      epoch_loop_first_line mean_loss_exact del: take_Suc_conv_app_nth)
    (simp add: mean_loss_def phase_losses_length)

theorem phase_loss_is_mean_of_batch_losses_witness:
  "fst (run_phases example_env [Fin 1, Fin 2] [Fin 3] example_trainer) = Inr (Fin (3 / 2), Fin 3)"
proof -
  have a: "[Fin 1, Fin 2] \<noteq> []" and b: "[Fin 3] \<noteq> []" by simp_all
  have r: "Inr (fdiv example_env (fsum example_env (phase_losses example_env Train [Fin 1, Fin 2] example_trainer))
              (length [Fin 1, Fin 2]),
            fdiv example_env (fsum example_env (phase_losses example_env Val [Fin 3]
                        (snd (run_phase example_env Train [Fin 1, Fin 2] example_trainer))))
              (length [Fin 3])) = (Inr (Fin (3 / 2), Fin 3) :: error + pyfloat \<times> pyfloat)"
    by code_simp
  show ?thesis
    using phase_loss_is_mean_of_batch_losses[OF a b, of example_env example_trainer, THEN conjunct1] r by (simp only:)
qed

section \<open>The learning rate\<close>

lemma fadd_env: "fadd (E\<lparr>adam := g\<rparr>) a b = fadd E a b"
  by (cases a; cases b; simp)

lemma fdiv_env: "fdiv (E\<lparr>adam := g\<rparr>) a n = fdiv E a n"
  by (cases a; simp)

lemma batch_step_env: "batch_step (E\<lparr>adam := g\<rparr>) ph b s = batch_step E ph b s"
  by (simp add: batch_step_def training_step_def validation_step_def Let_def split_def)

lemma batches_env: "batches (E\<lparr>adam := g\<rparr>) ph bs t s = batches E ph bs t s"
  by (induction bs arbitrary: t s) (simp_all add: batch_step_env fadd_env Let_def split_def)

lemma run_phase_env: "run_phase (E\<lparr>adam := g\<rparr>) ph dl s = run_phase E ph dl s"
  by (simp add: run_phase_def batches_env fdiv_env Let_def split_def)

lemma run_phases_env: "run_phases (E\<lparr>adam := g\<rparr>) tr va s = run_phases E tr va s"
  by (simp add: run_phases_def run_phase_env split_def split: sum.splits)

lemma early_stopping_env: "early_stopping (E\<lparr>adam := g\<rparr>) v s = early_stopping E v s"
  by (simp add: early_stopping_def save_checkpoint_def Let_def)

lemma epoch_loop_env: "epoch_loop (E\<lparr>adam := g\<rparr>) tr va es s = epoch_loop E tr va es s"
  by (induction es arbitrary: s)
     (simp_all add: epoch_loop_Cons run_phases_env early_stopping_env Let_def split: sum.splits)

lemma fit_setup_env:
  "fit_setup (E\<lparr>adam := \<lambda>r. adam E (1 / 1000000)\<rparr>) tr s = fit_setup E tr s"
  by (simp add: fit_setup_def find_optimal_lr_def OneCycleLR_def Let_def split_def)

lemma fit_adam_constant:
  "fit (E\<lparr>adam := \<lambda>r. adam E (1 / 1000000)\<rparr>) tr va s = fit E tr va s"
  by (simp only: fit_decomp fit_setup_env epoch_loop_env)

lemma lr_outer:
  "s\<lparr>lr := x, torch := w\<rparr> = s\<lparr>torch := w, lr := x\<rparr>"
  "s\<lparr>lr := x, epoch := e\<rparr> = s\<lparr>epoch := e, lr := x\<rparr>"
  "s\<lparr>lr := x, printed := p\<rparr> = s\<lparr>printed := p, lr := x\<rparr>"
  "s\<lparr>lr := x, max_lr := y\<rparr> = s\<lparr>max_lr := y, lr := x\<rparr>"
  "s\<lparr>lr := x, best_val_loss := b\<rparr> = s\<lparr>best_val_loss := b, lr := x\<rparr>"
  "s\<lparr>lr := x, no_improve_count := n\<rparr> = s\<lparr>no_improve_count := n, lr := x\<rparr>"
  "s\<lparr>lr := x, checkpoint := c\<rparr> = s\<lparr>checkpoint := c, lr := x\<rparr>"
  "s\<lparr>lr := x, summary_epoch := d\<rparr> = s\<lparr>summary_epoch := d, lr := x\<rparr>"
  by simp_all

lemma batch_step_lr: "batch_step E ph b (s\<lparr>lr := x\<rparr>) = apsnd (set_lr x) (batch_step E ph b s)"
  by (simp add: batch_step_def training_step_def validation_step_def split_def Let_def)

lemma batches_lr: "batches E ph bs t (s\<lparr>lr := x\<rparr>) = apsnd (set_lr x) (batches E ph bs t s)"
  by (induction bs arbitrary: t s) (simp_all add: batch_step_lr split_def Let_def)

lemma run_phase_lr: "run_phase E ph dl (s\<lparr>lr := x\<rparr>) = apsnd (set_lr x) (run_phase E ph dl s)"
  by (simp add: run_phase_def split_def Let_def lr_outer batches_lr)

lemma run_phases_lr:
  "run_phases E tr va (s\<lparr>lr := x\<rparr>) = apsnd (set_lr x) (run_phases E tr va s)"
  by (simp add: run_phases_def run_phase_lr split_def split: sum.splits)

lemma early_stopping_lr:
  "early_stopping E v (s\<lparr>lr := x\<rparr>) = apsnd (set_lr x) (early_stopping E v s)"
  by (simp add: early_stopping_def save_checkpoint_def Let_def)

lemma epoch_loop_lr:
  "epoch_loop E tr va es (s\<lparr>lr := x\<rparr>) = apsnd (set_lr x) (epoch_loop E tr va es s)"
proof (induction es arbitrary: s)
  case Nil
  show ?case by simp
next
  case (Cons e es)
  show ?case
    by (simp add: epoch_loop_Cons lr_outer run_phases_lr early_stopping_lr Cons.IH Let_def
        split: sum.splits)
qed

lemma fit_setup_lr: "fit_setup E tr (s\<lparr>lr := x\<rparr>) = apsnd (set_lr x) (fit_setup E tr s)"
  by (simp add: fit_setup_def find_optimal_lr_def OneCycleLR_def Let_def split_def)

lemma fit_finish_lr: "fit_finish (apsnd (set_lr x) r) = apsnd (set_lr x) (fit_finish r)"
  by (cases r) (simp add: fit_finish_def split: exit.splits option.splits)

lemma fit_lr: "fit E tr va (s\<lparr>lr := x\<rparr>) = apsnd (set_lr x) (fit E tr va s)"
  by (simp add: fit_decomp fit_setup_lr epoch_loop_lr fit_finish_lr split: option.splits)

text \<open>
  C8. The attribute \<^verbatim>\<open>lr\<close> has no effect on \<^verbatim>\<open>fit\<close>. Two trainers that differ only in
  \<^verbatim>\<open>lr\<close> end \<^verbatim>\<open>fit\<close> the same way and in states that differ only in \<^verbatim>\<open>lr\<close>: the same
  updates of the model, the same printed lines, the same best loss and counter. So do two
  trainers built from configurations that differ only in \<^verbatim>\<open>"lr"\<close>. The optimizer is
  always constructed with the rate \<open>1e-6\<close>: replacing \<open>adam\<close> by a constructor that ignores
  its rate and uses \<open>1e-6\<close> changes nothing.
\<close>

theorem lr_has_no_effect_on_fit:
  "fit E tr va (self\<lparr>lr := x\<rparr>) = apsnd (\<lambda>s. s\<lparr>lr := x\<rparr>) (fit E tr va self) \<and>
   fit E tr va (init m (c\<lparr>cfg_lr := a\<rparr>) w) =
     apsnd (\<lambda>s. s\<lparr>lr := dict_get a LR\<rparr>) (fit E tr va (init m (c\<lparr>cfg_lr := b\<rparr>) w)) \<and>
   fit (E\<lparr>adam := \<lambda>r. adam E (1 / 1000000)\<rparr>) tr va self = fit E tr va self"
proof -
  have "fit E tr va (init m (c\<lparr>cfg_lr := a\<rparr>) w) =
      fit E tr va ((init m (c\<lparr>cfg_lr := b\<rparr>) w)\<lparr>lr := dict_get a LR\<rparr>)"
    by (simp add: init_def)
  then show ?thesis
    by (simp add: fit_lr fit_adam_constant)
qed

section \<open>Termination of fit\<close>



lemma epoch_loop_losses_prefix:
  "length (val_losses (printed s)) \<le> length (val_losses (printed (snd (epoch_loop E tr va es s)))) \<and>
   take (length (val_losses (printed s))) (val_losses (printed (snd (epoch_loop E tr va es s))))
     = val_losses (printed s)"
proof -
  let ?p = "printed (snd (epoch_loop E tr va es s))"
  have "?p = take (length (printed s)) ?p @ drop (length (printed s)) ?p"
    by simp
  then have "?p = printed s @ drop (length (printed s)) ?p"
    using epoch_loop_printed_prefix[of s E tr va es] by simp
  then have "val_losses ?p = val_losses (printed s) @ val_losses (drop (length (printed s)) ?p)"
    by (metis val_losses_append)
  then show ?thesis by simp
qed

lemma sync_step:
  assumes "sync s" "printed s2 = printed s @ [Progress e a v]"
    "best_val_loss s2 = best_val_loss s" "no_improve_count s2 = no_improve_count s"
  shows "sync (snd (early_stopping E v s2))"
  using assms
  by (simp add: sync_def early_stopping_fields early_stopping_best early_stopping_count
      val_losses_append min_seen_snoc streak_snoc)

lemma epoch_loop_sync:
  assumes "sync s" "1 \<le> patience s"
  shows "sync (snd (epoch_loop E tr va es s)) \<and>
     (fst (epoch_loop E tr va es s) = Break \<longrightarrow>
        length (val_losses (printed s)) < length (val_losses (printed (snd (epoch_loop E tr va es s))))) \<and>
     (\<forall>k. length (val_losses (printed s)) \<le> k \<and>
          k < length (val_losses (printed (snd (epoch_loop E tr va es s)))) \<longrightarrow>
        (int (streak (take (Suc k) (val_losses (printed (snd (epoch_loop E tr va es s)))))) = patience s
           \<longleftrightarrow> fst (epoch_loop E tr va es s) = Break \<and>
               Suc k = length (val_losses (printed (snd (epoch_loop E tr va es s))))))"
  using assms
proof (induction es arbitrary: s)
  case Nil
  then show ?case by simp
next
  case (Cons e es)
  let ?s0 = "s\<lparr>epoch := Some e\<rparr>"
  let ?s1 = "snd (run_phases E tr va ?s0)"
  let ?hs = "val_losses (printed s)"
  show ?case
  proof (cases "fst (run_phases E tr va ?s0)")
    case (Inl err)
    with Cons.prems show ?thesis
      by (simp add: epoch_loop_Cons rp_fields sync_def)
  next
    case (Inr avg)
    let ?v = "snd avg"
    let ?s2 = "?s1\<lparr>printed := printed ?s1 @ [Progress e (fst avg) ?v]\<rparr>"
    let ?s3 = "snd (early_stopping E ?v ?s2)"
    have pr: "printed ?s3 = printed s @ [Progress e (fst avg) ?v]"
      by (simp add: early_stopping_fields rp_fields)
    have vl: "val_losses (printed ?s3) = ?hs @ [?v]"
      by (simp add: pr val_losses_append)
    have pa: "patience ?s3 = patience s"
      by (simp add: early_stopping_fields rp_fields)
    have sy: "sync ?s3"
      by (rule sync_step[OF Cons.prems(1)]) (simp_all add: rp_fields)
    have st: "fst (early_stopping E ?v ?s2) \<longleftrightarrow> int (streak (?hs @ [?v])) = patience s"
      using Cons.prems
      by (auto simp add: early_stopping_result rp_fields sync_def streak_snoc)
    show ?thesis
    proof (cases "fst (early_stopping E ?v ?s2)")
      case True
      have r: "epoch_loop E tr va (e # es) s =
          (Break, ?s3\<lparr>printed := printed ?s3 @ [Terminated (patience ?s3)]\<rparr>)"
        using Inr True by (simp add: epoch_loop_Cons Let_def)
      have sy': "sync (?s3\<lparr>printed := printed ?s3 @ [Terminated (patience ?s3)]\<rparr>)"
        using sy by (simp add: sync_def val_losses_append)
      have "\<And>k. length ?hs \<le> k \<Longrightarrow> k < Suc (length ?hs) \<Longrightarrow> k = length ?hs"
        by simp
      then show ?thesis
        unfolding r using sy' st True
        by (auto simp add: val_losses_append vl simp del: early_stopping_result)
    next
      case False
      let ?r = "epoch_loop E tr va es ?s3"
      let ?ls = "val_losses (printed (snd ?r))"
      have eq: "epoch_loop E tr va (e # es) s = ?r"
        using Inr False by (simp add: epoch_loop_Cons Let_def)
      have p3: "1 \<le> patience ?s3" using Cons.prems pa by simp
      note IH = Cons.IH[OF sy p3]
      have pf: "Suc (length ?hs) \<le> length ?ls" "take (Suc (length ?hs)) ?ls = ?hs @ [?v]"
        using epoch_loop_losses_prefix[of ?s3 E tr va es] by (simp_all add: vl)
      have here: "int (streak (take (Suc (length ?hs)) ?ls)) \<noteq> patience s"
        using False st pf by simp
      have nob: "\<not> (fst ?r = Break \<and> Suc (length ?hs) = length ?ls)"
        using IH by (auto simp add: vl)
      have "int (streak (take (Suc k) ?ls)) = patience s \<longleftrightarrow> fst ?r = Break \<and> Suc k = length ?ls"
        if "length ?hs \<le> k" "k < length ?ls" for k
      proof (cases "k = length ?hs")
        case True
        then show ?thesis using here nob by simp
      next
        case False
        with that have "length (val_losses (printed ?s3)) \<le> k" by (simp add: vl)
        with IH that(2) show ?thesis by (simp add: pa)
      qed
      moreover have "fst ?r = Break \<longrightarrow> length ?hs < length ?ls"
        using pf by simp
      ultimately show ?thesis
        unfolding eq using IH by blast
    qed
  qed
qed

lemma fit_sync:
  assumes "sync s" "1 \<le> patience s"
  shows "sync (snd (fit E tr va s)) \<and>
     (fst (fit E tr va s) = Break \<longrightarrow>
        length (val_losses (printed s)) < length (val_losses (printed (snd (fit E tr va s))))) \<and>
     (\<forall>k. length (val_losses (printed s)) \<le> k \<and>
          k < length (val_losses (printed (snd (fit E tr va s)))) \<longrightarrow>
        (int (streak (take (Suc k) (val_losses (printed (snd (fit E tr va s)))))) = patience s
           \<longleftrightarrow> fst (fit E tr va s) = Break \<and>
               Suc k = length (val_losses (printed (snd (fit E tr va s))))))"
proof (cases "use_scheduler s \<and> (max_epochs s \<le> 0 \<or> tr = [])")
  case True
  have "sync (snd (fit_setup E tr s))"
    using assms(1) by (simp add: sync_def fit_setup_fields)
  then show ?thesis
    by (simp add: fit_raised[OF True] fit_setup_fields)
next
  case False
  let ?s0 = "snd (fit_setup E tr s)"
  let ?es = "[start_epoch s .. max_epochs s]"
  let ?r = "epoch_loop E tr va ?es ?s0"
  have f: "fit E tr va s = fit_finish ?r"
    using False by (rule fit_not_raised)
  have sy: "sync ?s0"
    using assms(1) by (simp add: sync_def fit_setup_fields)
  have p1: "1 \<le> patience ?s0"
    using assms(2) by (simp add: fit_setup_fields)
  note L = epoch_loop_sync[OF sy p1, of E tr va ?es]
  have nb: "fst ?r = Break \<Longrightarrow> ?es \<noteq> []"
    by (cases "?es = []") auto
  have br: "fst ?r = Break \<Longrightarrow> epoch (snd ?r) \<noteq> None"
    using epoch_loop_epoch_var[of ?es E tr va ?s0] nb by fastforce
  have ex: "fst (fit_finish ?r) = Break \<longleftrightarrow> fst ?r = Break"
    using br unfolding fit_finish_exit by (cases "fst ?r") simp_all
  have pr: "printed (snd (fit_finish ?r)) = printed (snd ?r)"
    by (simp only: fit_finish_fields)
  have sf: "sync (snd (fit_finish ?r))"
    using L[THEN conjunct1] by (simp add: sync_def fit_finish_fields)
  have hs: "val_losses (printed ?s0) = val_losses (printed s)"
    by (simp only: fit_setup_fields)
  have pa: "patience ?s0 = patience s"
    by (simp only: fit_setup_fields)
  show ?thesis
    unfolding f ex pr
    using sf L[THEN conjunct2] unfolding f pr hs pa by (intro conjI) simp_all
qed





section \<open>The minimum validation loss and the stopping rule\<close>

lemma is_minimum_step:
  assumes "is_minimum b S"
  shows "is_minimum (if flt v b then v else b) (insert v S)"
proof (cases "flt v b")
  case True
  then have "v \<noteq> NaN" using flt_NaN by auto
  moreover have "\<not> flt x v" if "x \<in> S" for x
    using assms True that flt_chain[of x b v] by (auto simp: is_minimum_def)
  ultimately show ?thesis
    using True by (auto simp: is_minimum_def flt_irrefl)
next
  case False
  with assms show ?thesis by (auto simp: is_minimum_def)
qed

lemma early_stopping_minimum:
  "is_minimum (best_val_loss s) S \<Longrightarrow>
     is_minimum (best_val_loss (snd (early_stopping E v s))) (insert v S)"
  by (simp only: early_stopping_best is_minimum_step)

lemma epoch_loop_minimum:
  assumes "is_minimum (best_val_loss s) S"
  shows "is_minimum (best_val_loss (snd (epoch_loop E tr va es s)))
     (S \<union> set (drop (length (val_losses (printed s)))
                  (val_losses (printed (snd (epoch_loop E tr va es s))))))"
  using assms
proof (induction es arbitrary: s S)
  case Nil
  then show ?case by simp
next
  case (Cons e es)
  let ?s0 = "s\<lparr>epoch := Some e\<rparr>"
  let ?s1 = "snd (run_phases E tr va ?s0)"
  let ?hs = "val_losses (printed s)"
  show ?case
  proof (cases "fst (run_phases E tr va ?s0)")
    case (Inl err)
    with Cons.prems show ?thesis
      by (simp add: epoch_loop_Cons rp_fields)
  next
    case (Inr avg)
    let ?v = "snd avg"
    let ?s2 = "?s1\<lparr>printed := printed ?s1 @ [Progress e (fst avg) ?v]\<rparr>"
    let ?s3 = "snd (early_stopping E ?v ?s2)"
    have pr: "printed ?s3 = printed s @ [Progress e (fst avg) ?v]"
      by (simp add: early_stopping_fields rp_fields)
    have vl: "val_losses (printed ?s3) = ?hs @ [?v]"
      by (simp add: pr val_losses_append)
    have "is_minimum (best_val_loss ?s2) S"
      using Cons.prems by (simp add: rp_fields)
    then have m3: "is_minimum (best_val_loss ?s3) (insert ?v S)"
      by (rule early_stopping_minimum)
    show ?thesis
    proof (cases "fst (early_stopping E ?v ?s2)")
      case True
      have r: "epoch_loop E tr va (e # es) s =
          (Break, ?s3\<lparr>printed := printed ?s3 @ [Terminated (patience ?s3)]\<rparr>)"
        using Inr True by (simp add: epoch_loop_Cons Let_def)
      show ?thesis
        unfolding r using m3 by (simp add: val_losses_append vl)
    next
      case False
      let ?r = "epoch_loop E tr va es ?s3"
      let ?ls = "val_losses (printed (snd ?r))"
      have eq: "epoch_loop E tr va (e # es) s = ?r"
        using Inr False by (simp add: epoch_loop_Cons Let_def)
      have pf: "Suc (length ?hs) \<le> length ?ls" "take (Suc (length ?hs)) ?ls = ?hs @ [?v]"
        using epoch_loop_losses_prefix[of ?s3 E tr va es] by (simp_all add: vl)
      have "?ls ! length ?hs = take (Suc (length ?hs)) ?ls ! length ?hs"
        by simp
      then have nth: "?ls ! length ?hs = ?v"
        by (simp only: pf(2)) simp
      have "drop (length ?hs) ?ls = ?ls ! length ?hs # drop (Suc (length ?hs)) ?ls"
        using pf(1) by (simp add: Cons_nth_drop_Suc)
      then have dr: "set (drop (length ?hs) ?ls) = insert ?v (set (drop (Suc (length ?hs)) ?ls))"
        by (simp add: nth)
      show ?thesis
        unfolding eq using Cons.IH[OF m3] by (simp add: vl dr)
    qed
  qed
qed

lemma fit_minimum:
  assumes "is_minimum (best_val_loss s) S"
  shows "is_minimum (best_val_loss (snd (fit E tr va s)))
     (S \<union> set (drop (length (val_losses (printed s)))
                  (val_losses (printed (snd (fit E tr va s))))))"
proof (cases "use_scheduler s \<and> (max_epochs s \<le> 0 \<or> tr = [])")
  case True
  then show ?thesis
    using assms by (simp add: fit_raised fit_setup_fields)
next
  case False
  have "is_minimum (best_val_loss (snd (fit_setup E tr s))) S"
    using assms by (simp add: fit_setup_fields)
  from epoch_loop_minimum[OF this, of E tr va "[start_epoch s .. max_epochs s]"]
  show ?thesis
    by (simp add: fit_not_raised[OF False] fit_finish_fields fit_setup_fields)
qed

text \<open>
  C5. \<^verbatim>\<open>best_val_loss\<close> is the minimum validation loss: after any sequence of calls of
  \<^verbatim>\<open>_early_stopping\<close> on a new trainer it is the minimum of positive infinity and the
  losses passed in. The operations preserve this: if \<^verbatim>\<open>best_val_loss\<close> is the minimum
  of a set \<open>S\<close>, then after a call with the loss \<open>v\<close> it is the minimum of \<open>S\<close> with
  \<open>v\<close>, after \<^verbatim>\<open>fit\<close> it is the minimum of \<open>S\<close> with the validation losses of the epochs
  that \<^verbatim>\<open>fit\<close> ran, and \<^verbatim>\<open>_save_checkpoint\<close> does not change it. A NaN loss is never
  less than anything and never becomes the minimum.
\<close>

theorem best_val_loss_is_minimum_seen:
  "is_minimum (best_val_loss (snd (early_stopping_calls E vs (init m c w))))
     (insert PosInf (set vs)) \<and>
   (is_minimum (best_val_loss self) S \<longrightarrow>
      is_minimum (best_val_loss (snd (early_stopping E v self))) (insert v S) \<and>
      is_minimum (best_val_loss (snd (fit E tr va self)))
        (S \<union> set (drop (length (val_losses (printed self)))
                     (val_losses (printed (snd (fit E tr va self)))))) \<and>
      best_val_loss (save_checkpoint E self) = best_val_loss self)"
  using calls_state[of E vs m c w] min_seen_is_minimum[of vs]
  by (simp add: early_stopping_minimum fit_minimum save_checkpoint_def)

theorem best_val_loss_is_minimum_seen_witness:
  "best_val_loss (snd (early_stopping_calls example_env [Fin 3, NaN, Fin 2, Fin 5]
      example_trainer)) = Fin 2 \<and>
   best_val_loss example_trainer = PosInf \<and>
   best_val_loss (snd (early_stopping example_env (Fin 1) example_trainer)) = Fin 1"
proof -
  note th = best_val_loss_is_minimum_seen[of example_env "[Fin 3, NaN, Fin 2, Fin 5]" 0 example_config False
      example_trainer "{PosInf}" "Fin 1" "[Fin 1]" "[Fin 1]"]
  have b: "best_val_loss example_trainer = PosInf"
    by (simp add: example_trainer_def init_def)
  have h: "is_minimum (best_val_loss example_trainer) {PosInf}"
    by (simp add: b is_minimum_def)
  have "is_minimum (best_val_loss (snd (early_stopping_calls example_env
      [Fin 3, NaN, Fin 2, Fin 5] example_trainer))) (insert PosInf (set [Fin 3, NaN, Fin 2, Fin 5]))"
    using th[THEN conjunct1] by (simp only: example_trainer_def)
  then have 1: "best_val_loss (snd (early_stopping_calls example_env
      [Fin 3, NaN, Fin 2, Fin 5] example_trainer)) = Fin 2"
    unfolding is_minimum_def by auto
  have "is_minimum (best_val_loss (snd (early_stopping example_env (Fin 1) example_trainer)))
      {Fin 1, PosInf}"
    using th[THEN conjunct2] h by simp
  then have 2: "best_val_loss (snd (early_stopping example_env (Fin 1) example_trainer)) = Fin 1"
    unfolding is_minimum_def by auto
  show ?thesis using 1 2 b by simp
qed

text \<open>
  C1. Let the patience be at least 1. On a new trainer, the call of \<^verbatim>\<open>_early_stopping\<close>
  for epoch \<open>k\<close> returns \<open>True\<close> exactly when the epochs up to \<open>k\<close> end in a run of
  precisely \<^verbatim>\<open>patience\<close> consecutive epochs that did not strictly improve on the minimum
  validation loss seen before them. \<^verbatim>\<open>fit\<close> stops early exactly then: among the epochs
  it ran, the streak of non-improving epochs equals the patience at an epoch if and
  only if \<^verbatim>\<open>fit\<close> took the \<^verbatim>\<open>break\<close> and that epoch is the last one.
\<close>

theorem early_stopping_exactly_after_patience_epochs:
  fixes E :: "('w, 'b, 'l, 'sd) env"
  assumes "1 \<le> p" and "cfg_patience c = Some p"
  shows "(\<forall>k<length vs. fst (early_stopping_calls E vs (init m c w)) ! k \<longleftrightarrow>
            int (streak (take (Suc k) vs)) = p) \<and>
     (let r = fit E tr va (init m c w); ls = val_losses (printed (snd r)) in
        (\<forall>k<length ls. int (streak (take (Suc k) ls)) = p \<longleftrightarrow>
            fst r = Break \<and> Suc k = length ls) \<and>
        (fst r = Break \<longrightarrow> ls \<noteq> []))"
proof -
  have 1: "\<forall>k<length vs. fst (early_stopping_calls E vs (init m c w)) ! k \<longleftrightarrow>
            int (streak (take (Suc k) vs)) = p"
    by (simp add: calls_result_streak[OF assms])
  let ?t = "init m c w :: ('w, 'sd) state"
  let ?ls = "val_losses (printed (snd (fit E tr va ?t)))"
  have pa: "patience ?t = p"
    using assms by (simp add: init_def dict_get_def)
  have vl0: "val_losses (printed ?t) = []"
    by (simp add: init_def)
  have sy: "sync ?t"
    by (simp add: sync_def init_def min_seen_def streak_def)
  have p1: "1 \<le> patience ?t" using assms pa by simp
  note S = fit_sync[OF sy p1, of E tr va]
  have 2: "\<forall>k<length ?ls. int (streak (take (Suc k) ?ls)) = p \<longleftrightarrow>
      fst (fit E tr va ?t) = Break \<and> Suc k = length ?ls"
    using S[THEN conjunct2, THEN conjunct2] unfolding vl0 pa by simp
  have 3: "fst (fit E tr va ?t) = Break \<longrightarrow> ?ls \<noteq> []"
    using S[THEN conjunct2, THEN conjunct1] unfolding vl0 by auto
  show ?thesis
    unfolding Let_def by (intro conjI 1 2 3)
qed

theorem early_stopping_exactly_after_patience_epochs_witness:
  "(1::int) \<le> 2 \<and> cfg_patience example_config = Some 2 \<and>
   fst (early_stopping_calls example_env [Fin 1, Fin 1, Fin 1] example_trainer) ! 2 = True \<and>
   fst (early_stopping_calls example_env [Fin 1, Fin 1, Fin 1] example_trainer) ! 1 = False \<and>
   val_losses (printed (snd (fit example_env [Fin 1] [Fin 1] example_trainer)))
     = [Fin 1, Fin 1, Fin 1] \<and>
   fst (fit example_env [Fin 1] [Fin 1] example_trainer) = Break"
proof -
  have a: "(1::int) \<le> 2" by simp
  have b: "cfg_patience example_config = Some 2" by (simp add: example_config_def)
  note th = early_stopping_exactly_after_patience_epochs[OF a b, of "[Fin 1, Fin 1, Fin 1]" example_env 0 False "[Fin 1]" "[Fin 1]",
      folded example_trainer_def]
  have s3: "streak (take (Suc 2) [Fin 1, Fin 1, Fin 1]) = 2" by code_simp
  have s2: "streak (take (Suc 1) [Fin 1, Fin 1, Fin 1]) = 1" by code_simp
  have c2: "fst (early_stopping_calls example_env [Fin 1, Fin 1, Fin 1] example_trainer) ! 2 = True"
    using th[THEN conjunct1, rule_format, of 2] by (simp only: s3) simp
  have c1: "fst (early_stopping_calls example_env [Fin 1, Fin 1, Fin 1] example_trainer) ! 1 = False"
    using th[THEN conjunct1, rule_format, of 1] by (simp only: s2) simp
  have ls: "val_losses (printed (snd (fit example_env [Fin 1] [Fin 1] example_trainer)))
     = [Fin 1, Fin 1, Fin 1]"
    by code_simp
  have k: "(2::nat) < length [Fin 1, Fin 1, Fin 1 :: pyfloat]" by simp
  have t2: "(\<forall>k<length [Fin 1, Fin 1, Fin 1 :: pyfloat].
       int (streak (take (Suc k) [Fin 1, Fin 1, Fin 1])) = 2 \<longleftrightarrow>
       fst (fit example_env [Fin 1] [Fin 1] example_trainer) = Break \<and>
       Suc k = length [Fin 1, Fin 1, Fin 1 :: pyfloat]) \<and>
     (fst (fit example_env [Fin 1] [Fin 1] example_trainer) = Break \<longrightarrow>
       [Fin 1, Fin 1, Fin 1 :: pyfloat] \<noteq> [])"
    using th[THEN conjunct2] unfolding Let_def ls .
  have "fst (fit example_env [Fin 1] [Fin 1] example_trainer) = Break"
    using t2[THEN conjunct1, rule_format, OF k] s3 by simp
  then show ?thesis using a b c1 c2 ls by simp
qed

end
